theory Spec2Isabelle
  imports Complex_Main
begin

section \<open>Python values, exceptions and effects\<close>

text \<open>
  The repository is a Python program whose request state and intent hints are
  dictionaries with values of any type. Values are embedded as \<open>pyval\<close>; a float is
  represented by the rational number it denotes (infinities and NaN are not values of
  the model), and the rounded arithmetic on floats is a parameter of the environment.
  A dictionary is an association list with distinct keys in insertion order;
  \<open>dict_set\<close> is item assignment and \<open>dict_get\<close> is \<^verbatim>\<open>d.get(k)\<close>.
  A Python \<^verbatim>\<open>str\<close> is represented by its UTF-8 bytes, so every non-ASCII literal of
  the source appears as a byte list.
\<close>

datatype pyval =
    PNone
  | PBool bool
  | PInt int
  | PFloat rat
  | PStr string
  | PList "pyval list"
  | PDict "(string \<times> pyval) list"

type_synonym dict = "(string \<times> pyval) list"

type_synonym row = "(string \<times> string) list"

text \<open>An exception (any subclass of \<^verbatim>\<open>Exception\<close>): its type name and \<^verbatim>\<open>str(e)\<close>.\<close>

datatype exn = Exn (exn_type: string) (exn_msg: string)

fun dict_set :: "'k \<Rightarrow> 'v \<Rightarrow> ('k \<times> 'v) list \<Rightarrow> ('k \<times> 'v) list" where
  "dict_set k v [] = [(k, v)]"
| "dict_set k v (kv # d) = (if fst kv = k then (k, v) # d else kv # dict_set k v d)"

definition dict_get :: "('k \<times> 'v) list \<Rightarrow> 'k \<Rightarrow> 'v option" where
  "dict_get d k = map_of d k"

text \<open>Truth value testing, as \<^verbatim>\<open>bool(x)\<close>, \<^verbatim>\<open>not x\<close> and \<^verbatim>\<open>x or y\<close> use it.\<close>

fun truthy :: "pyval \<Rightarrow> bool" where
  "truthy PNone = False"
| "truthy (PBool b) = b"
| "truthy (PInt n) = (n \<noteq> 0)"
| "truthy (PFloat x) = (x \<noteq> 0)"
| "truthy (PStr s) = (s \<noteq> [])"
| "truthy (PList xs) = (xs \<noteq> [])"
| "truthy (PDict d) = (d \<noteq> [])"

text \<open>
  A computation that may raise, over a store \<open>'s\<close>: the store after the computation is
  returned in both outcomes, because a Python \<^verbatim>\<open>except\<close> block runs in the store the
  failed \<^verbatim>\<open>try\<close> block left behind.
\<close>

type_synonym ('s, 'a) prog = "'s \<Rightarrow> (exn + 'a) \<times> 's"

definition ret :: "'a \<Rightarrow> ('s, 'a) prog" where
  "ret x = (\<lambda>s. (Inr x, s))"

definition raise :: "exn \<Rightarrow> ('s, 'a) prog" where
  "raise e = (\<lambda>s. (Inl e, s))"

definition bind :: "('s, 'a) prog \<Rightarrow> ('a \<Rightarrow> ('s, 'b) prog) \<Rightarrow> ('s, 'b) prog" where
  "bind m f = (\<lambda>s. case m s of (Inl e, s') \<Rightarrow> (Inl e, s') | (Inr x, s') \<Rightarrow> f x s')"

definition seq :: "('s, unit) prog \<Rightarrow> ('s, 'b) prog \<Rightarrow> ('s, 'b) prog" where
  "seq m n = bind m (\<lambda>_. n)"

definition try_except :: "('s, 'a) prog \<Rightarrow> (exn \<Rightarrow> ('s, 'a) prog) \<Rightarrow> ('s, 'a) prog" where
  "try_except m h = (\<lambda>s. case m s of (Inl e, s') \<Rightarrow> h e s' | (Inr x, s') \<Rightarrow> (Inr x, s'))"

text \<open>\<open>attempt m\<close> runs \<open>m\<close> and hands its outcome over as a value.\<close>

definition attempt :: "('s, 'a) prog \<Rightarrow> ('s, exn + 'a) prog" where
  "attempt m = (\<lambda>s. case m s of (r, s') \<Rightarrow> (Inr r, s'))"

definition total_op :: "('s \<Rightarrow> 'a \<times> 's) \<Rightarrow> ('s, 'a) prog" where
  "total_op f = (\<lambda>s. case f s of (x, s') \<Rightarrow> (Inr x, s'))"

definition lift :: "exn + 'a \<Rightarrow> ('s, 'a) prog" where
  "lift r = (\<lambda>s. (r, s))"

section \<open>Strings\<close>

fun starts_with :: "string \<Rightarrow> string \<Rightarrow> bool" where
  "starts_with [] s = True"
| "starts_with (p # ps) [] = False"
| "starts_with (p # ps) (c # cs) = (p = c \<and> starts_with ps cs)"

fun contains :: "string \<Rightarrow> string \<Rightarrow> bool" where
  "contains sub [] = (sub = [])"
| "contains sub (c # cs) = (starts_with sub (c # cs) \<or> contains sub cs)"

fun str_nat :: "nat \<Rightarrow> string" where
  "str_nat n =
     (if n < 10 then [''0123456789'' ! n]
      else str_nat (n div 10) @ [''0123456789'' ! (n mod 10)])"

declare str_nat.simps [simp del]

definition str_int :: "int \<Rightarrow> string" where
  "str_int i = (if i < 0 then CHR ''-'' # str_nat (nat (- i)) else str_nat (nat i))"

text \<open>\<^verbatim>\<open>int(x)\<close> of a float truncates towards zero.\<close>

definition int_of_float :: "rat \<Rightarrow> int" where
  "int_of_float x = (if 0 \<le> x then \<lfloor>x\<rfloor> else \<lceil>x\<rceil>)"

section \<open>The request state\<close>

text \<open>
  \<^verbatim>\<open>class State(TypedDict, total=False)\<close> of \<^verbatim>\<open>tools/graph.py\<close>: every key may be
  absent, so every field is an option. The keys \<^verbatim>\<open>sparql_history\<close> and
  \<^verbatim>\<open>fallback_strategy\<close> are not declared in the class but are written by the handlers.
  The key \<^verbatim>\<open>context\<close> is the field \<open>context_text\<close>.
\<close>

record state =
  question :: "string option"
  need_stats :: "bool option"
  have_rows :: "bool option"
  retries :: "int option"
  max_retries :: "int option"
  hints :: "dict option"
  time_window :: "dict option"
  context_text :: "string option"
  sparql :: "string option"
  rows :: "row list option"
  analysis :: "pyval list option"
  analysis_error :: "pyval option"
  answer :: "string option"
  trace :: "string list option"
  topology_all_rooms :: "row list option"
  sparql_history :: "(string \<times> string) list option"
  fallback_strategy :: "string option"

definition or_default :: "'a \<Rightarrow> 'a option \<Rightarrow> 'a" where
  "or_default d x = (case x of None \<Rightarrow> d | Some v \<Rightarrow> v)"

text \<open>
  A handler runs over the store \<open>state \<times> 'w\<close>: the request state it mutates and the
  outside world \<open>'w\<close> (files, caches, the language model, the clock), which only the
  collaborators touch. \<open>item f k\<close> is the subscript \<^verbatim>\<open>state[k]\<close>, raising
  \<^verbatim>\<open>KeyError\<close> on an absent key.
\<close>

definition gets :: "(state \<Rightarrow> 'a) \<Rightarrow> (state \<times> 'w, 'a) prog" where
  "gets f = (\<lambda>\<sigma>. (Inr (f (fst \<sigma>)), \<sigma>))"

definition modify :: "(state \<Rightarrow> state) \<Rightarrow> (state \<times> 'w, unit) prog" where
  "modify f = (\<lambda>\<sigma>. (Inr (), (f (fst \<sigma>), snd \<sigma>)))"

definition call :: "('w, 'a) prog \<Rightarrow> (state \<times> 'w, 'a) prog" where
  "call c = (\<lambda>\<sigma>. case c (snd \<sigma>) of (r, w') \<Rightarrow> (r, (fst \<sigma>, w')))"

definition KeyError :: "string \<Rightarrow> exn" where
  "KeyError k = Exn ''KeyError'' (CHR 0x27 # k @ [CHR 0x27])"

definition item :: "(state \<Rightarrow> 'a option) \<Rightarrow> string \<Rightarrow> (state \<times> 'w, 'a) prog" where
  "item f k = (\<lambda>\<sigma>. case f (fst \<sigma>) of None \<Rightarrow> (Inl (KeyError k), \<sigma>) | Some v \<Rightarrow> (Inr v, \<sigma>))"

text \<open>\<^verbatim>\<open>state.setdefault("trace", []).append(name)\<close>\<close>

definition append_trace :: "string \<Rightarrow> (state \<times> 'w, unit) prog" where
  "append_trace name = modify (\<lambda>s. s\<lparr>trace := Some (or_default [] (trace s) @ [name])\<rparr>)"

section \<open>What lies outside the repository\<close>

text \<open>
  Libraries, files, the language model and the clock are parameters. An operation
  that reads or changes the outside world is a computation over \<open>'w\<close>, so two calls
  with the same arguments may answer differently. \<open>'t\<close> is \<^verbatim>\<open>datetime\<close>.
  A query result \<open>qresult\<close> is its attribute \<^verbatim>\<open>vars\<close> (None for a result that is no
  \<^verbatim>\<open>SELECT\<close> result, else the variable names) and its rows in order, every cell
  given by the string \<^verbatim>\<open>str(v)\<close> that \<^verbatim>\<open>_norm_row\<close> stores.
  \<open>perf_counter\<close> reads the clock, a float; \<open>float_sub\<close> and \<open>float_mul\<close> are the
  subtraction and the multiplication of two floats with the rounding of the
  interpreter. \<open>int_of_str\<close> is \<^verbatim>\<open>int(s)\<close> for a string: the number, or the exception
  \<^verbatim>\<open>int\<close> raises.

  The collaborators that are a language-model or index call as a whole
  (\<open>search\<close>, \<open>build_context\<close>, \<open>advanced_text_to_sparql\<close>,
  \<open>analyze_state\<close>,
  \<open>analyze_point_in_time_state\<close>, \<open>compose\<close>) and the two template generators
  of \<^verbatim>\<open>SPARQLGenerator\<close> are taken as they are called: any result, any exception.
  \<^verbatim>\<open>analyze_state(state)\<close> reads the keys \<^verbatim>\<open>rows\<close>, \<^verbatim>\<open>time_window\<close> and \<^verbatim>\<open>hints\<close> of the
  state and \<^verbatim>\<open>analyze_point_in_time_state(state)\<close> the keys \<^verbatim>\<open>rows\<close> and \<^verbatim>\<open>time_window\<close>
  (each with \<^verbatim>\<open>or []\<close> or \<^verbatim>\<open>or {}\<close>); they are given what they read.
  For \<^verbatim>\<open>LLMSPARQLGenerator\<close>, \<open>get_fallback_llm\<close> is its cached \<^verbatim>\<open>_get_llm()\<close>, which answers
  whether a model handle exists, \<open>llm_sparql\<close> is the body of the \<^verbatim>\<open>try\<close> of its
  \<^verbatim>\<open>generate\<close> (prompt, model call, cleaning of the reply) and \<open>list_points_any\<close> is the
  template \<^verbatim>\<open>SPARQLTemplates.list_points_any\<close>.
\<close>

type_synonym qresult = "string list option \<times> string list list"

record ('w, 't) env =
  load_prompt :: "('w, string option) prog"
  get_llm :: "'w \<Rightarrow> bool \<times> 'w"
  prompt_path :: string
  llm_reply :: "string \<Rightarrow> string \<Rightarrow> ('w, string) prog"
  json_loads :: "string \<Rightarrow> pyval option"
  py_str :: "pyval \<Rightarrow> string"
  str_lower :: "string \<Rightarrow> string"
  str_upper :: "string \<Rightarrow> string"
  str_strip :: "string \<Rightarrow> string"
  str_split :: "string \<Rightarrow> string list"
  room_digits :: "string \<Rightarrow> string option"
  int_of_str :: "string \<Rightarrow> exn + int"
  search :: "string \<Rightarrow> ('w, pyval) prog"
  build_context :: "pyval \<Rightarrow> ('w, string) prog"
  advanced_text_to_sparql :: "string \<Rightarrow> string \<Rightarrow> dict \<Rightarrow> ('w, string) prog"
  generate_topology_query :: "dict \<Rightarrow> exn + string"
  generate_timeseries_query :: "dict \<Rightarrow> exn + string"
  get_fallback_llm :: "'w \<Rightarrow> bool \<times> 'w"
  llm_sparql :: "string \<Rightarrow> dict \<Rightarrow> ('w, string) prog"
  list_points_any :: "nat \<Rightarrow> string"
  get_graph :: "('w, unit) prog"
  perf_counter :: "'w \<Rightarrow> rat \<times> 'w"
  float_sub :: "rat \<Rightarrow> rat \<Rightarrow> rat"
  float_mul :: "rat \<Rightarrow> rat \<Rightarrow> rat"
  graph_query :: "string \<Rightarrow> ('w, qresult) prog"
  analyze_state :: "row list \<Rightarrow> dict \<Rightarrow> dict \<Rightarrow> ('w, pyval list) prog"
  analyze_point_in_time_state :: "row list \<Rightarrow> dict \<Rightarrow> ('w, pyval list) prog"
  compose :: "string \<Rightarrow> row list \<Rightarrow> pyval list \<Rightarrow> dict \<Rightarrow> dict \<Rightarrow> row list \<Rightarrow> ('w, string) prog"
  now_local :: "'w \<Rightarrow> 't \<times> 'w"
  start_of_day :: "'t \<Rightarrow> 't"
  plus_days :: "'t \<Rightarrow> int \<Rightarrow> exn + 't"
  plus_hours :: "'t \<Rightarrow> int \<Rightarrow> exn + 't"
  strptime :: "string \<Rightarrow> string \<Rightarrow> 't option"
  isoformat :: "'t \<Rightarrow> string"

section \<open>The query executor (\<^verbatim>\<open>nodes/sparql_exec.py\<close>)\<close>

fun closing_of :: "char \<Rightarrow> char option" where
  "closing_of c =
     (if c = CHR ''('' then Some (CHR '')'')
      else if c = CHR ''{'' then Some (CHR ''}'')
      else if c = CHR ''['' then Some (CHR '']'')
      else None)"

definition is_closing :: "char \<Rightarrow> bool" where
  "is_closing c = (c = CHR '')'' \<or> c = CHR ''}'' \<or> c = CHR '']'')"

text \<open>The bracket loop of \<^verbatim>\<open>_basic_syntax_check\<close>; the head of \<open>stack\<close> is its top.\<close>

fun brackets_ok :: "char list \<Rightarrow> string \<Rightarrow> bool" where
  "brackets_ok stack [] = (stack = [])"
| "brackets_ok stack (ch # q) =
     (if closing_of ch \<noteq> None then brackets_ok (ch # stack) q
      else if is_closing ch then
        (case stack of
           [] \<Rightarrow> False
         | op # stack' \<Rightarrow> if closing_of op \<noteq> Some ch then False else brackets_ok stack' q)
      else brackets_ok stack q)"

definition uses_prefix :: "('w, 't) env \<Rightarrow> string \<Rightarrow> bool" where
  "uses_prefix env q =
     list_ex (\<lambda>t. CHR '':'' \<in> set t \<and> \<not> starts_with ''http'' t
                  \<and> \<not> starts_with ''PREFIX'' (str_upper env t))
       (str_split env (map (\<lambda>c. if c = CHR 0x0A then CHR '' '' else c) q))"

definition basic_syntax_check :: "('w, 't) env \<Rightarrow> string \<Rightarrow> bool" where
  "basic_syntax_check env q =
     (if q = [] then False
      else if \<not> brackets_ok [] q then False
      else if uses_prefix env q \<and> \<not> contains ''PREFIX'' (str_upper env q) then False
      else True)"

definition norm_row :: "row \<Rightarrow> row" where
  "norm_row entry =
     (let out = foldl (\<lambda>out kv. dict_set (fst kv) (snd kv) out) [] entry
      in case (dict_get out ''tsid'', dict_get out ''ts_id'') of
           (None, Some v) \<Rightarrow> dict_set ''tsid'' v out
         | _ \<Rightarrow> out)"

definition IndexError :: exn where
  "IndexError = Exn ''IndexError'' ''list index out of range''"

text \<open>\<^verbatim>\<open>{vars_[i]: r[i] for i in range(len(vars_))}\<close>, from index \<open>i\<close> on.\<close>

fun item_of_vars :: "string list \<Rightarrow> nat \<Rightarrow> string list \<Rightarrow> row \<Rightarrow> exn + row" where
  "item_of_vars [] i r acc = Inr acc"
| "item_of_vars (v # vs) i r acc =
     (if i < length r then item_of_vars vs (Suc i) r (dict_set v (r ! i) acc)
      else Inl IndexError)"

text \<open>\<^verbatim>\<open>{f"col{i}": v for i, v in enumerate(r)}\<close>, from index \<open>i\<close> on.\<close>

fun item_of_cols :: "nat \<Rightarrow> string list \<Rightarrow> row \<Rightarrow> row" where
  "item_of_cols i [] acc = acc"
| "item_of_cols i (v # vs) acc = item_of_cols (Suc i) vs (dict_set (''col'' @ str_nat i) v acc)"

text \<open>
  The loop \<^verbatim>\<open>for r in qres\<close>; \<open>vars\<close> is the list of variable names, and the empty list
  is the case in which \<^verbatim>\<open>vars_\<close> is None (\<^verbatim>\<open>[] or None\<close>).
\<close>

fun rows_of :: "string list \<Rightarrow> string list list \<Rightarrow> exn + row list" where
  "rows_of vars [] = Inr []"
| "rows_of vars (r # rs) =
     (case (if vars \<noteq> [] then item_of_vars vars 0 r [] else Inr (item_of_cols 0 r [])) of
        Inl e \<Rightarrow> Inl e
      | Inr entry \<Rightarrow>
          (case rows_of vars rs of
             Inl e \<Rightarrow> Inl e
           | Inr rest \<Rightarrow> Inr (norm_row entry # rest)))"

text \<open>\<^verbatim>\<open>if rows: rows[0]["__elapsed_ms"] = str(elapsed_ms)\<close>\<close>

fun stamp_elapsed :: "int \<Rightarrow> row list \<Rightarrow> row list" where
  "stamp_elapsed ms [] = []"
| "stamp_elapsed ms (r # rs) = dict_set ''__elapsed_ms'' (str_int ms) r # rs"

text \<open>
  \<^verbatim>\<open>[str(v) for v in getattr(qres, "vars", [])]\<close>: iterating over the \<^verbatim>\<open>vars\<close> None of a
  result that is no \<^verbatim>\<open>SELECT\<close> result raises \<^verbatim>\<open>TypeError\<close>.
\<close>

definition vars_of :: "qresult \<Rightarrow> exn + string list" where
  "vars_of qres =
     (case fst qres of
        None \<Rightarrow> Inl (Exn ''TypeError'' ([CHR 0x27] @ ''NoneType'' @ [CHR 0x27] @ '' object is not iterable''))
      | Some vs \<Rightarrow> Inr vs)"

text \<open>\<^verbatim>\<open>int((time.perf_counter() - t0) * 1000)\<close>\<close>

definition elapsed_ms :: "('w, 't) env \<Rightarrow> rat \<Rightarrow> rat \<Rightarrow> int" where
  "elapsed_ms env t0 t1 = int_of_float (float_mul env (float_sub env t1 t0) 1000)"

definition execute :: "('w, 't) env \<Rightarrow> string \<Rightarrow> ('w, row list) prog" where
  "execute env query =
     (if \<not> basic_syntax_check env query then ret []
      else
        bind (get_graph env) (\<lambda>g.
        bind (total_op (perf_counter env)) (\<lambda>t0.
        bind (attempt (graph_query env query)) (\<lambda>r.
          case r of
            Inl e \<Rightarrow> ret []
          | Inr qres \<Rightarrow>
              bind (total_op (perf_counter env)) (\<lambda>t1.
              bind (lift (vars_of qres)) (\<lambda>vars.
              bind (lift (rows_of vars (snd qres))) (\<lambda>rows.
              ret (stamp_elapsed (elapsed_ms env t0 t1) rows))))))))"

section \<open>Intent parsing (\<^verbatim>\<open>nodes/rag_agent.py\<close>)\<close>

definition pyget :: "dict \<Rightarrow> string \<Rightarrow> pyval" where
  "pyget d k = (case dict_get d k of None \<Rightarrow> PNone | Some v \<Rightarrow> v)"

text \<open>
  \<^verbatim>\<open>_neutral(question, source_reason)\<close>. The value of \<^verbatim>\<open>_prompt\<close> is the path of the
  prompt file, \<open>prompt_path\<close>.
\<close>

definition neutral :: "('w, 't) env \<Rightarrow> string \<Rightarrow> string \<Rightarrow> dict" where
  "neutral env q source_reason =
     [(''question_type'', PStr ''other''), (''topology_intent'', PNone),
      (''need_stats'', PBool False), (''need'', PNone), (''room'', PNone),
      (''metric'', PNone), (''time_range'', PNone), (''uncertain'', PBool True),
      (''ambiguities'', PList []), (''_source'', PStr source_reason),
      (''_prompt'', PStr (prompt_path env))]"

text \<open>
  The match of \<^verbatim>\<open>re.search(r"\{.*\}", s, flags=re.S)\<close>: from the first opening brace to
  the last closing brace after it.
\<close>

definition brace_span :: "string \<Rightarrow> string option" where
  "brace_span s =
     (case dropWhile (\<lambda>c. c \<noteq> CHR ''{'') s of
        [] \<Rightarrow> None
      | b # body \<Rightarrow>
          if CHR ''}'' \<in> set body
          then Some (b # rev (dropWhile (\<lambda>c. c \<noteq> CHR ''}'') (rev body)))
          else None)"

definition safe_json_from_text :: "('w, 't) env \<Rightarrow> string \<Rightarrow> dict option" where
  "safe_json_from_text env s =
     (if s = [] then None
      else
        (let txt = (case brace_span s of Some m \<Rightarrow> m | None \<Rightarrow> s)
         in case json_loads env txt of
              Some (PDict d) \<Rightarrow> Some d
            | _ \<Rightarrow> None))"

definition ALLOWED_NEEDS :: "string list" where
  "ALLOWED_NEEDS = [''avg'', ''max'', ''min'', ''trend'']"

definition ALLOWED_QTYPE :: "string list" where
  "ALLOWED_QTYPE = [''timeseries'', ''topology'', ''other'']"

definition ALLOWED_TOPO_INTENT :: "string list" where
  "ALLOWED_TOPO_INTENT = [''count_rooms'', ''list_rooms'', ''sensor_existence'']"

definition normalize_need :: "('w, 't) env \<Rightarrow> pyval \<Rightarrow> pyval" where
  "normalize_need env x =
     (let keep = (\<lambda>xs. PList (concat (map (\<lambda>n.
                    case n of
                      PStr t \<Rightarrow>
                        (let m = str_lower env (str_strip env t)
                         in if m \<in> set ALLOWED_NEEDS then [PStr m] else [])
                    | _ \<Rightarrow> []) xs)))
      in if \<not> truthy x then PNone
         else case x of
                PStr t \<Rightarrow> keep [PStr t]
              | PList xs \<Rightarrow> keep xs
              | _ \<Rightarrow> PNone)"

text \<open>The field cleaning of \<^verbatim>\<open>llm_parse\<close>, from \<^verbatim>\<open>qtype = ...\<close> to the returned record.\<close>

definition clean_hints :: "('w, 't) env \<Rightarrow> dict \<Rightarrow> dict" where
  "clean_hints env data =
     (let qtype0 = str_lower env (py_str env (or_default (PStr ''other'') (dict_get data ''question_type'')));
          qtype = (if qtype0 \<in> set ALLOWED_QTYPE then qtype0 else ''other'');
          topo_intent =
            (case pyget data ''topology_intent'' of
               PStr t \<Rightarrow>
                 (let t' = str_strip env (str_lower env t)
                  in if t' \<in> set ALLOWED_TOPO_INTENT then PStr t' else PNone)
             | v \<Rightarrow> v);
          need = normalize_need env (pyget data ''need'');
          need_stats_v = (truthy (pyget data ''need_stats'') \<or> truthy need);
          room =
            (case pyget data ''room'' of
               PStr r \<Rightarrow> (case room_digits env r of Some m \<Rightarrow> PStr m | None \<Rightarrow> PNone)
             | v \<Rightarrow> v);
          metric0 = pyget data ''metric'';
          metric =
            (if metric0 \<in> set [PStr ''temp'', PStr ''rh'', PStr ''lux'', PStr ''co2'', PStr ''pm25'']
             then metric0 else PNone);
          time_range =
            (case pyget data ''time_range'' of
               PDict d \<Rightarrow> if dict_get d ''kind'' = None then PNone else PDict d
             | _ \<Rightarrow> PNone);
          uncertain = truthy (or_default (PBool False) (dict_get data ''uncertain''));
          ambiguities0 = (let a = pyget data ''ambiguities'' in if truthy a then a else PList []);
          ambiguities =
            (case ambiguities0 of PList xs \<Rightarrow> PList xs | v \<Rightarrow> PList [PStr (py_str env v)])
      in [(''question_type'', PStr qtype), (''topology_intent'', topo_intent),
          (''need_stats'', PBool need_stats_v), (''need'', need), (''room'', room),
          (''metric'', metric), (''time_range'', time_range), (''uncertain'', PBool uncertain),
          (''ambiguities'', ambiguities), (''_source'', PStr ''llm''),
          (''_prompt'', PStr (prompt_path env))])"

text \<open>
  \<^verbatim>\<open>llm_parse\<close>. \<open>load_prompt\<close> is \<^verbatim>\<open>_load_prompt()\<close>, which reads a file outside any
  \<^verbatim>\<open>try\<close>; \<open>get_llm\<close> is \<^verbatim>\<open>_get_llm()\<close>, which catches what it raises and answers
  whether a model handle exists; \<open>llm_reply prompt question\<close> is the text obtained from
  \<^verbatim>\<open>llm.invoke\<close> or, when that raises, from \<^verbatim>\<open>llm.predict\<close>.
\<close>

definition llm_parse :: "('w, 't) env \<Rightarrow> string \<Rightarrow> ('w, dict) prog" where
  "llm_parse env q =
     bind (load_prompt env) (\<lambda>prompt.
       case prompt of
         None \<Rightarrow> ret (neutral env q ''no-prompt'')
       | Some p \<Rightarrow>
           if p = [] then ret (neutral env q ''no-prompt'')
           else
             bind (total_op (get_llm env)) (\<lambda>llm.
               if \<not> llm then ret (neutral env q ''no-llm'')
               else
                 try_except
                   (bind (llm_reply env p q) (\<lambda>text.
                      case safe_json_from_text env text of
                        None \<Rightarrow> ret (neutral env q ''parse-error'')
                      | Some data \<Rightarrow>
                          if data = [] then ret (neutral env q ''parse-error'')
                          else ret (clean_hints env data)))
                   (\<lambda>e. ret (neutral env q ''llm-error''))))"

definition get_hints :: "('w, 't) env \<Rightarrow> string \<Rightarrow> ('w, dict) prog" where
  "get_hints env q = llm_parse env q"

text \<open>\<^verbatim>\<open>rag_agent.need_stats\<close>; the name \<open>need_stats\<close> is the field of the state.\<close>

definition rag_need_stats :: "('w, 't) env \<Rightarrow> string \<Rightarrow> ('w, bool) prog" where
  "rag_need_stats env q =
     try_except
       (bind (llm_parse env q) (\<lambda>h. ret (truthy (pyget h ''need_stats''))))
       (\<lambda>e. ret False)"

section \<open>Time-window normalization (\<^verbatim>\<open>nodes/normalize_time_agent.py\<close>)\<close>

definition label_no_time :: string where
  "label_no_time =
     [CHR 0xEF, CHR 0xBC, CHR 0x88, CHR 0xE6, CHR 0x97, CHR 0xA0, CHR 0xE6, CHR 0x97,
      CHR 0xB6, CHR 0xE9, CHR 0x97, CHR 0xB4, CHR 0xE9, CHR 0x99, CHR 0x90, CHR 0xE5,
      CHR 0xAE, CHR 0x9A, CHR 0xEF, CHR 0xBC, CHR 0x89]"

definition label_parse_failed :: string where
  "label_parse_failed =
     [CHR 0xEF, CHR 0xBC, CHR 0x88, CHR 0xE6, CHR 0x97, CHR 0xB6, CHR 0xE9, CHR 0x97,
      CHR 0xB4, CHR 0xE8, CHR 0xA7, CHR 0xA3, CHR 0xE6, CHR 0x9E, CHR 0x90, CHR 0xE5,
      CHR 0xA4, CHR 0xB1, CHR 0xE8, CHR 0xB4, CHR 0xA5, CHR 0xEF, CHR 0xBC, CHR 0x89]"

definition msg_parse_failed :: string where
  "msg_parse_failed =
     [CHR 0xE6, CHR 0x97, CHR 0xB6, CHR 0xE9, CHR 0x97, CHR 0xB4, CHR 0xE8, CHR 0xA7,
      CHR 0xA3, CHR 0xE6, CHR 0x9E, CHR 0x90, CHR 0xE5, CHR 0xA4, CHR 0xB1, CHR 0xE8,
      CHR 0xB4, CHR 0xA5, CHR 0x3A, CHR 0x20]"

definition label_yesterday :: string where
  "label_yesterday = [CHR 0xE6, CHR 0x98, CHR 0xA8, CHR 0xE5, CHR 0xA4, CHR 0xA9]"

definition suffix_days_ago :: string where
  "suffix_days_ago = [CHR 0xE5, CHR 0xA4, CHR 0xA9, CHR 0xE5, CHR 0x89, CHR 0x8D]"

definition prefix_recent :: string where
  "prefix_recent = [CHR 0xE6, CHR 0x9C, CHR 0x80, CHR 0xE8, CHR 0xBF, CHR 0x91]"

definition suffix_hours :: string where
  "suffix_hours = [CHR 0xE5, CHR 0xB0, CHR 0x8F, CHR 0xE6, CHR 0x97, CHR 0xB6]"

definition msg_empty :: string where
  "msg_empty =
     [CHR 0xE7, CHR 0xA9, CHR 0xBA, CHR 0xE5, CHR 0xAD, CHR 0x97, CHR 0xE7, CHR 0xAC,
      CHR 0xA6, CHR 0xE4, CHR 0xB8, CHR 0xB2, CHR 0xE6, CHR 0x97, CHR 0xA0, CHR 0xE6,
      CHR 0xB3, CHR 0x95, CHR 0xE8, CHR 0xA7, CHR 0xA3, CHR 0xE6, CHR 0x9E, CHR 0x90,
      CHR 0xE6, CHR 0x97, CHR 0xB6, CHR 0xE9, CHR 0x97, CHR 0xB4]"

definition msg_unparsable :: string where
  "msg_unparsable =
     [CHR 0xE6, CHR 0x97, CHR 0xA0, CHR 0xE6, CHR 0xB3, CHR 0x95, CHR 0xE8, CHR 0xA7,
      CHR 0xA3, CHR 0xE6, CHR 0x9E, CHR 0x90, CHR 0xE6, CHR 0x97, CHR 0xB6, CHR 0xE9,
      CHR 0x97, CHR 0xB4, CHR 0xE5, CHR 0xAD, CHR 0x97, CHR 0xE7, CHR 0xAC, CHR 0xA6,
      CHR 0xE4, CHR 0xB8, CHR 0xB2, CHR 0x3A, CHR 0x20]"

definition type_name :: "pyval \<Rightarrow> string" where
  "type_name v =
     (case v of
        PNone \<Rightarrow> ''NoneType'' | PBool b \<Rightarrow> ''bool'' | PInt n \<Rightarrow> ''int''
      | PFloat x \<Rightarrow> ''float'' | PStr s \<Rightarrow> ''str'' | PList xs \<Rightarrow> ''list''
      | PDict d \<Rightarrow> ''dict'')"

definition AttributeError :: "pyval \<Rightarrow> string \<Rightarrow> exn" where
  "AttributeError v a =
     Exn ''AttributeError''
       ([CHR 0x27] @ type_name v @ [CHR 0x27] @ '' object has no attribute ''
        @ [CHR 0x27] @ a @ [CHR 0x27])"

text \<open>\<^verbatim>\<open>x.get(k)\<close> on a value that need not be a dictionary.\<close>

definition attr_get :: "pyval \<Rightarrow> string \<Rightarrow> exn + pyval option" where
  "attr_get v k = (case v of PDict d \<Rightarrow> Inr (dict_get d k) | _ \<Rightarrow> Inl (AttributeError v ''get''))"

definition ebind :: "exn + 'a \<Rightarrow> ('a \<Rightarrow> exn + 'b) \<Rightarrow> exn + 'b" where
  "ebind r f = (case r of Inl e \<Rightarrow> Inl e | Inr x \<Rightarrow> f x)"

text \<open>
  \<^verbatim>\<open>int(x)\<close>. The text of the \<^verbatim>\<open>TypeError\<close> is that of Python 3.10 and later.
\<close>

definition py_int :: "('w, 't) env \<Rightarrow> pyval \<Rightarrow> exn + int" where
  "py_int env v =
     (case v of
        PInt n \<Rightarrow> Inr n
      | PBool b \<Rightarrow> Inr (if b then 1 else 0)
      | PFloat x \<Rightarrow> Inr (int_of_float x)
      | PStr s \<Rightarrow> int_of_str env s
      | _ \<Rightarrow>
          Inl (Exn ''TypeError''
                 (''int() argument must be a string, a bytes-like object or a real number, not ''
                  @ [CHR 0x27] @ type_name v @ [CHR 0x27])))"

text \<open>
  \<^verbatim>\<open>_parse_dt\<close>. \<open>strptime s fmt\<close> is the parsed time carrying the configured zone, None
  where \<^verbatim>\<open>datetime.strptime\<close> raises \<^verbatim>\<open>ValueError\<close>; on an argument that is no string it
  raises \<^verbatim>\<open>TypeError\<close>, which \<^verbatim>\<open>_parse_dt\<close> does not catch.
\<close>

definition parse_dt :: "('w, 't) env \<Rightarrow> pyval \<Rightarrow> exn + 't" where
  "parse_dt env s =
     (if \<not> truthy s then Inl (Exn ''ValueError'' msg_empty)
      else case s of
             PStr str \<Rightarrow>
               (case strptime env str ''%Y-%m-%dT%H:%M'' of
                  Some d \<Rightarrow> Inr d
                | None \<Rightarrow>
                    (case strptime env str ''%Y-%m-%d'' of
                       Some d \<Rightarrow> Inr d
                     | None \<Rightarrow> Inl (Exn ''ValueError'' (msg_unparsable @ str))))
           | _ \<Rightarrow> Inl (Exn ''TypeError'' (''strptime() argument 1 must be str, not '' @ type_name s)))"

definition window_relative_days :: "('w, 't) env \<Rightarrow> 't \<Rightarrow> int \<Rightarrow> exn + 't \<times> 't \<times> string" where
  "window_relative_days env now days_ago =
     ebind (plus_days env (start_of_day env now) (- days_ago)) (\<lambda>base.
     ebind (plus_days env base 1) (\<lambda>end_local.
     Inr (base, end_local,
          if days_ago = 1 then label_yesterday else str_int days_ago @ suffix_days_ago)))"

definition window_last_hours :: "('w, 't) env \<Rightarrow> 't \<Rightarrow> int \<Rightarrow> exn + 't \<times> 't \<times> string" where
  "window_last_hours env now hours =
     ebind (plus_hours env now (- hours)) (\<lambda>start.
     Inr (start, now, prefix_recent @ str_int hours @ suffix_hours))"

definition window_absolute :: "('w, 't) env \<Rightarrow> pyval \<Rightarrow> pyval \<Rightarrow> exn + 't \<times> 't \<times> string" where
  "window_absolute env start_str end_str =
     ebind (parse_dt env start_str) (\<lambda>start.
     ebind (parse_dt env end_str) (\<lambda>end_local.
     Inr (start, end_local, py_str env start_str @ '' ~ '' @ py_str env end_str)))"

definition window_point_in_time :: "('w, 't) env \<Rightarrow> pyval \<Rightarrow> exn + 't \<times> 't \<times> string" where
  "window_point_in_time env at_str =
     ebind (parse_dt env at_str) (\<lambda>at_time.
     ebind (plus_hours env at_time 1) (\<lambda>end_local.
     Inr (at_time, end_local, py_str env at_str)))"

definition window_ok :: "('w, 't) env \<Rightarrow> 't \<times> 't \<times> string \<Rightarrow> dict" where
  "window_ok env win =
     [(''start_local'', PStr (isoformat env (fst win))),
      (''end_local'', PStr (isoformat env (fst (snd win)))),
      (''label'', PStr (snd (snd win))), (''ok'', PBool True), (''error'', PNone)]"

definition window_none :: dict where
  "window_none =
     [(''start_local'', PNone), (''end_local'', PNone), (''label'', PStr label_no_time),
      (''ok'', PBool True), (''error'', PNone)]"

definition window_error :: "exn \<Rightarrow> dict" where
  "window_error e =
     [(''start_local'', PNone), (''end_local'', PNone), (''label'', PStr label_parse_failed),
      (''ok'', PBool False), (''error'', PStr (msg_parse_failed @ exn_msg e))]"

text \<open>The body of the \<^verbatim>\<open>try\<close> of \<^verbatim>\<open>normalize_time\<close>; \<open>tr\<close> is \<^verbatim>\<open>hints.get("time_range") or {}\<close>.\<close>

definition normalize_body :: "('w, 't) env \<Rightarrow> 't \<Rightarrow> pyval \<Rightarrow> exn + dict" where
  "normalize_body env now tr =
     ebind (attr_get tr ''kind'') (\<lambda>kind.
       if kind = Some (PStr ''relative_days'') then
         ebind (attr_get tr ''days_ago'') (\<lambda>d.
         ebind (py_int env (or_default (PInt 1) d)) (\<lambda>days_ago.
         ebind (window_relative_days env now days_ago) (\<lambda>win. Inr (window_ok env win))))
       else if kind = Some (PStr ''last_hours'') then
         ebind (attr_get tr ''hours'') (\<lambda>h.
         ebind (py_int env (or_default (PInt 6) h)) (\<lambda>hours.
         ebind (window_last_hours env now (max 1 hours)) (\<lambda>win. Inr (window_ok env win))))
       else if kind = Some (PStr ''absolute'') then
         ebind (attr_get tr ''start'') (\<lambda>s.
         ebind (attr_get tr ''end'') (\<lambda>e.
         ebind (window_absolute env (or_default (PStr []) s) (or_default (PStr []) e))
           (\<lambda>win. Inr (window_ok env win))))
       else if kind = Some (PStr ''point_in_time'') then
         ebind (attr_get tr ''at'') (\<lambda>a.
         ebind (window_point_in_time env (or_default (PStr []) a))
           (\<lambda>win. Inr (window_ok env win)))
       else Inr window_none)"

definition normalize_time :: "('w, 't) env \<Rightarrow> dict \<Rightarrow> ('w, dict) prog" where
  "normalize_time env hints_arg =
     bind (total_op (now_local env)) (\<lambda>now.
       let tr = (case dict_get hints_arg ''time_range'' of
                   Some v \<Rightarrow> if truthy v then v else PDict []
                 | None \<Rightarrow> PDict [])
       in try_except (lift (normalize_body env now tr)) (\<lambda>e. ret (window_error e)))"

section \<open>Query generation (\<^verbatim>\<open>nodes/sparql_agent.py\<close>)\<close>

text \<open>
  \<^verbatim>\<open>SPARQLGenerator.generate\<close> behind \<^verbatim>\<open>sparql_agent.generate\<close>. Its first statements are
  \<^verbatim>\<open>hints = hints or {}; hints["question"] = question\<close>: a non-empty \<open>h\<close> is the very
  dictionary stored in the state (the handler passes \<^verbatim>\<open>state.get("hints", {})\<close>), so the
  assignment is visible there; an empty or absent one is replaced by a fresh dictionary.
\<close>

definition generate :: "('w, 't) env \<Rightarrow> string \<Rightarrow> string \<Rightarrow> dict \<Rightarrow> (state \<times> 'w, string) prog" where
  "generate env q context_arg h =
     (let h1 = dict_set ''question'' (PStr q) h
      in seq (if h \<noteq> [] then modify (\<lambda>s. s\<lparr>hints := Some h1\<rparr>) else ret ())
             (lift (if dict_get h1 ''question_type'' = Some (PStr ''topology'')
                    then generate_topology_query env h1
                    else generate_timeseries_query env h1)))"

text \<open>
  \<^verbatim>\<open>LLMSPARQLGenerator.generate\<close> behind \<^verbatim>\<open>sparql_agent.llm_based_sparql_generation\<close>:
  without a model handle it answers the template, and whatever the \<^verbatim>\<open>try\<close> block raises
  is caught and answered with the template too. The argument \<^verbatim>\<open>context\<close> is not used.
\<close>

definition llm_based_sparql_generation ::
  "('w, 't) env \<Rightarrow> string \<Rightarrow> string \<Rightarrow> dict \<Rightarrow> ('w, string) prog" where
  "llm_based_sparql_generation env q context_arg h =
     bind (total_op (get_fallback_llm env)) (\<lambda>llm.
       if \<not> llm then ret (list_points_any env 50)
       else try_except (llm_sparql env q h) (\<lambda>e. ret (list_points_any env 50)))"

section \<open>The step handlers (\<^verbatim>\<open>tools/graph.py\<close>)\<close>

definition node_intent :: "('w, 't) env \<Rightarrow> (state \<times> 'w, unit) prog" where
  "node_intent env =
     seq (append_trace ''intent'')
    (seq (try_except
            (bind (item question ''question'') (\<lambda>q.
             bind (call (get_hints env q)) (\<lambda>h.
             seq (modify (\<lambda>s. s\<lparr>hints := Some h\<rparr>))
            (bind (item question ''question'') (\<lambda>q2.
             bind (call (rag_need_stats env q2)) (\<lambda>ns.
             modify (\<lambda>s. s\<lparr>need_stats := Some ns\<rparr>)))))))
            (\<lambda>e. seq (modify (\<lambda>s. s\<lparr>hints := Some []\<rparr>))
                      (modify (\<lambda>s. s\<lparr>need_stats := Some False\<rparr>))))
    (seq (modify (\<lambda>s. s\<lparr>retries := Some 0\<rparr>))
         (modify (\<lambda>s. s\<lparr>max_retries := Some 1\<rparr>))))"

definition node_rag :: "('w, 't) env \<Rightarrow> (state \<times> 'w, unit) prog" where
  "node_rag env =
     seq (append_trace ''rag'')
         (try_except
            (bind (item question ''question'') (\<lambda>q.
             bind (call (search env q)) (\<lambda>chunks.
             bind (call (build_context env chunks)) (\<lambda>c.
             modify (\<lambda>s. s\<lparr>context_text := Some c\<rparr>)))))
            (\<lambda>e. modify (\<lambda>s. s\<lparr>context_text := Some []\<rparr>)))"

text \<open>
  \<^verbatim>\<open>normalize_time_agent.node_normalize_time\<close>, to which the handler of the same name
  in \<^verbatim>\<open>tools/graph.py\<close> delegates.
\<close>

definition node_normalize_time :: "('w, 't) env \<Rightarrow> (state \<times> 'w, unit) prog" where
  "node_normalize_time env =
     bind (gets (\<lambda>s. or_default [] (hints s))) (\<lambda>h.
     bind (call (normalize_time env h)) (\<lambda>result.
     seq (modify (\<lambda>s. s\<lparr>time_window := Some result\<rparr>))
         (append_trace ''normalize_time'')))"

definition node_generate_sparql :: "('w, 't) env \<Rightarrow> (state \<times> 'w, unit) prog" where
  "node_generate_sparql env =
     seq (append_trace ''generate_sparql'')
    (bind (gets (\<lambda>s. or_default [] (sparql s))) (\<lambda>current.
       if current \<noteq> [] then ret ()
       else
         try_except
           (bind (gets (\<lambda>s. or_default [] (hints s))) (\<lambda>h.
            bind (item question ''question'') (\<lambda>q.
            bind (gets (\<lambda>s. or_default [] (context_text s))) (\<lambda>c.
            bind (generate env q c h) (\<lambda>new_sparql.
            seq (modify (\<lambda>s. if sparql_history s = None then s\<lparr>sparql_history := Some []\<rparr> else s))
           (seq (modify (\<lambda>s. s\<lparr>sparql_history :=
                                  Some (or_default [] (sparql_history s) @ [(''initial'', new_sparql)])\<rparr>))
                (modify (\<lambda>s. s\<lparr>sparql := Some new_sparql\<rparr>))))))))
           (\<lambda>e. modify (\<lambda>s. s\<lparr>sparql := Some []\<rparr>))))"

definition all_rooms_sparql :: string where
  "all_rooms_sparql =
     ''PREFIX brick: <https://brickschema.org/schema/Brick#>'' @ [CHR 0x0A] @
     ''PREFIX bldg:  <urn:demo-building#>'' @ [CHR 0x0A] @
     [CHR 0x0A] @
     ''SELECT DISTINCT ?room'' @ [CHR 0x0A] @
     ''WHERE {'' @ [CHR 0x0A] @
     ''  ?room a brick:Room .'' @ [CHR 0x0A] @
     ''}'' @ [CHR 0x0A] @
     ''ORDER BY ?room''"

definition node_execute_sparql :: "('w, 't) env \<Rightarrow> (state \<times> 'w, unit) prog" where
  "node_execute_sparql env =
     seq (append_trace ''execute_sparql'')
    (bind (try_except
             (bind (gets (\<lambda>s. or_default [] (sparql s))) (\<lambda>q. call (execute env q)))
             (\<lambda>e. ret [])) (\<lambda>rows_v.
     seq (modify (\<lambda>s. s\<lparr>rows := Some rows_v\<rparr>))
    (seq (modify (\<lambda>s. s\<lparr>have_rows := Some (rows_v \<noteq> [])\<rparr>))
    (bind (gets (\<lambda>s. or_default [] (hints s))) (\<lambda>h.
       if dict_get h ''question_type'' = Some (PStr ''topology'') then
         try_except
           (bind (call (execute env all_rooms_sparql)) (\<lambda>all_rooms_rows.
            modify (\<lambda>s. s\<lparr>topology_all_rooms := Some all_rooms_rows\<rparr>)))
           (\<lambda>e. modify (\<lambda>s. s\<lparr>topology_all_rooms := Some []\<rparr>))
       else ret ())))))"

definition query_failed :: string where
  "query_failed = [CHR 0xE6, CHR 0x9F, CHR 0xA5, CHR 0xE8, CHR 0xAF, CHR 0xA2, CHR 0xE5, CHR 0xA4,
      CHR 0xB1, CHR 0xE8, CHR 0xB4, CHR 0xA5]"

definition error_query :: string where
  "error_query =
     ''SELECT ?error WHERE { BIND('' @ [CHR 0x27] @ query_failed @ [CHR 0x27] @ '' AS ?error) }''"

text \<open>
  The statements \<^verbatim>\<open>state["sparql"] = sparql_agent.llm_based_sparql_generation(...)\<close> and
  \<^verbatim>\<open>state["fallback_strategy"] = tag\<close>, which \<^verbatim>\<open>node_route_zero_rows\<close> has twice, with
  the tags \<^verbatim>\<open>level_1\<close> and \<^verbatim>\<open>level_1_fallback\<close>.
\<close>

definition llm_fallback :: "('w, 't) env \<Rightarrow> string \<Rightarrow> (state \<times> 'w, unit) prog" where
  "llm_fallback env tag =
     bind (gets (\<lambda>s. or_default [] (question s))) (\<lambda>q.
     bind (gets (\<lambda>s. or_default [] (context_text s))) (\<lambda>c.
     bind (gets (\<lambda>s. or_default [] (hints s))) (\<lambda>h.
     bind (call (llm_based_sparql_generation env q c h)) (\<lambda>new_sparql.
     seq (modify (\<lambda>s. s\<lparr>sparql := Some new_sparql\<rparr>))
         (modify (\<lambda>s. s\<lparr>fallback_strategy := Some tag\<rparr>))))))"

text \<open>The inner \<^verbatim>\<open>try\<close> block of the branch \<^verbatim>\<open>retry_count == 2\<close>.\<close>

definition rag_enhanced :: "('w, 't) env \<Rightarrow> (state \<times> 'w, unit) prog" where
  "rag_enhanced env =
     bind (gets (\<lambda>s. or_default [] (question s))) (\<lambda>q.
     bind (call (search env q)) (\<lambda>chunks.
     bind (call (build_context env chunks)) (\<lambda>new_context.
     seq (modify (\<lambda>s. s\<lparr>context_text := Some new_context\<rparr>))
    (bind (gets (\<lambda>s. or_default [] (question s))) (\<lambda>q2.
     bind (gets (\<lambda>s. or_default [] (hints s))) (\<lambda>h.
     bind (call (advanced_text_to_sparql env q2 new_context h)) (\<lambda>new_sparql.
     seq (modify (\<lambda>s. s\<lparr>sparql := Some new_sparql\<rparr>))
         (modify (\<lambda>s. s\<lparr>fallback_strategy := Some ''level_2''\<rparr>)))))))))"

definition node_route_zero_rows :: "('w, 't) env \<Rightarrow> (state \<times> 'w, unit) prog" where
  "node_route_zero_rows env =
     seq (append_trace ''route_zero_rows'')
    (bind (gets (\<lambda>s. or_default 0 (retries s))) (\<lambda>current_retries.
     seq (modify (\<lambda>s. s\<lparr>retries := Some (current_retries + 1)\<rparr>))
         (let retry_count = current_retries + 1
          in try_except
               (seq (if retry_count = 1 then llm_fallback env ''level_1''
                     else if retry_count = 2 then
                       try_except (rag_enhanced env) (\<lambda>e. llm_fallback env ''level_1_fallback'')
                     else ret ())
               (seq (modify (\<lambda>s. if sparql_history s = None then s\<lparr>sparql_history := Some []\<rparr> else s))
               (bind (item fallback_strategy ''fallback_strategy'') (\<lambda>tag.
                bind (item sparql ''sparql'') (\<lambda>query.
                modify (\<lambda>s. s\<lparr>sparql_history :=
                                 Some (or_default [] (sparql_history s) @ [(tag, query)])\<rparr>))))))
               (\<lambda>e. seq (modify (\<lambda>s. s\<lparr>sparql := Some error_query\<rparr>))
                         (modify (\<lambda>s. s\<lparr>fallback_strategy := Some ''error''\<rparr>))))))"

definition analysis_failed :: "exn \<Rightarrow> (state \<times> 'w, unit) prog" where
  "analysis_failed e =
     seq (modify (\<lambda>s. s\<lparr>analysis := Some []\<rparr>))
         (modify (\<lambda>s. s\<lparr>analysis_error := Some (PStr (exn_type e @ '': '' @ exn_msg e))\<rparr>))"

definition node_analyze_point_in_time :: "('w, 't) env \<Rightarrow> (state \<times> 'w, unit) prog" where
  "node_analyze_point_in_time env =
     seq (append_trace ''analyze_point_in_time'')
         (try_except
            (bind (gets (\<lambda>s. s)) (\<lambda>s0.
             bind (call (analyze_point_in_time_state env (or_default [] (rows s0))
                           (or_default [] (time_window s0)))) (\<lambda>a.
             seq (modify (\<lambda>s. s\<lparr>analysis := Some a\<rparr>))
                 (modify (\<lambda>s. s\<lparr>analysis_error := Some PNone\<rparr>)))))
            analysis_failed)"

text \<open>\<^verbatim>\<open>analysis_agent\<close> defines \<^verbatim>\<open>analyze_state\<close>, so the \<^verbatim>\<open>hasattr\<close> test holds.\<close>

definition node_analyze :: "('w, 't) env \<Rightarrow> (state \<times> 'w, unit) prog" where
  "node_analyze env =
     seq (append_trace ''analyze'')
         (try_except
            (bind (gets (\<lambda>s. s)) (\<lambda>s0.
             bind (call (analyze_state env (or_default [] (rows s0))
                           (or_default [] (time_window s0)) (or_default [] (hints s0)))) (\<lambda>a.
             seq (modify (\<lambda>s. s\<lparr>analysis := Some a\<rparr>))
                 (modify (\<lambda>s. s\<lparr>analysis_error := Some PNone\<rparr>)))))
            analysis_failed)"

definition apology :: string where
  "apology =
     [CHR 0xE6, CHR 0x8A, CHR 0xB1, CHR 0xE6, CHR 0xAD, CHR 0x89, CHR 0xEF, CHR 0xBC,
      CHR 0x8C, CHR 0xE6, CHR 0x9A, CHR 0x82, CHR 0xE6, CHR 0x97, CHR 0xB6, CHR 0xE6,
      CHR 0x97, CHR 0xA0, CHR 0xE6, CHR 0xB3, CHR 0x95, CHR 0xE7, CHR 0x94, CHR 0x9F,
      CHR 0xE6, CHR 0x88, CHR 0x90, CHR 0xE7, CHR 0xAD, CHR 0x94, CHR 0xE6, CHR 0xA1,
      CHR 0x88, CHR 0xE3, CHR 0x80, CHR 0x82]"

definition node_answer :: "('w, 't) env \<Rightarrow> (state \<times> 'w, unit) prog" where
  "node_answer env =
     seq (append_trace ''answer'')
         (try_except
            (bind (item question ''question'') (\<lambda>q.
             bind (gets (\<lambda>s. s)) (\<lambda>s0.
             bind (call (compose env q (or_default [] (rows s0)) (or_default [] (analysis s0))
                           (or_default [] (hints s0)) (or_default [] (time_window s0))
                           (or_default [] (topology_all_rooms s0)))) (\<lambda>a.
             modify (\<lambda>s. s\<lparr>answer := Some a\<rparr>)))))
            (\<lambda>e. modify (\<lambda>s. s\<lparr>answer := Some apology\<rparr>)))"

section \<open>The routers\<close>

definition route_after_execute :: "state \<Rightarrow> exn + string" where
  "route_after_execute s =
     (let h = or_default [] (hints s);
          qtype = dict_get h ''question_type'';
          time_range = or_default (PDict []) (dict_get h ''time_range'');
          need = dict_get h ''need'';
          need_ok = (case need of Some (PList xs) \<Rightarrow> xs \<noteq> [] | _ \<Rightarrow> False)
      in if \<not> or_default False (have_rows s) then Inr ''zero''
         else if qtype = Some (PStr ''topology'') then Inr ''answer''
         else ebind (attr_get time_range ''kind'') (\<lambda>kind.
                if kind = Some (PStr ''point_in_time'') then Inr ''analyze_point_in_time''
                else if or_default False (need_stats s) \<or> need_ok then Inr ''analyze''
                else Inr ''answer''))"

definition route_retry_or_end :: "state \<Rightarrow> string" where
  "route_retry_or_end s =
     (let max_retries_v = (2 :: int);
          current_retries = or_default 0 (retries s);
          should_retry = (current_retries < max_retries_v)
      in if should_retry then ''retry'' else ''giveup'')"

section \<open>The workflow graph\<close>

text \<open>
  The nodes and edges that \<^verbatim>\<open>tools/graph.py\<close> adds to the \<^verbatim>\<open>StateGraph\<close>. The executor
  of the graph is a library outside the repository: starting at the entry point it
  runs the handler of the current node on the state, stores what the handler
  returns, then follows the edge from that node, until \<^verbatim>\<open>END\<close>. It keeps a channel
  for each key that \<^verbatim>\<open>class State\<close> declares and no other: the keys \<^verbatim>\<open>sparql_history\<close>
  and \<^verbatim>\<open>fallback_strategy\<close>, which the handlers write without a declaration, reach
  neither the router nor the next handler (\<open>declared_keys\<close>). An exception of a
  handler or of a router ends the run. The run is cut after \<open>recursion_limit\<close> steps.
\<close>

definition declared_keys :: "state \<Rightarrow> state" where
  "declared_keys s = s\<lparr>sparql_history := None, fallback_strategy := None\<rparr>"

datatype node =
    Intent | Rag | Normalize_time | Generate_sparql | Execute_sparql
  | Route_zero_rows | Analyze | Answer | Analyze_point_in_time

definition USE_RAG :: bool where
  "USE_RAG = True"

fun handler :: "('w, 't) env \<Rightarrow> node \<Rightarrow> (state \<times> 'w, unit) prog" where
  "handler env Intent = node_intent env"
| "handler env Rag = node_rag env"
| "handler env Normalize_time = node_normalize_time env"
| "handler env Generate_sparql = node_generate_sparql env"
| "handler env Execute_sparql = node_execute_sparql env"
| "handler env Route_zero_rows = node_route_zero_rows env"
| "handler env Analyze = node_analyze env"
| "handler env Answer = node_answer env"
| "handler env Analyze_point_in_time = node_analyze_point_in_time env"

definition after_execute_edges :: "(string \<times> node) list" where
  "after_execute_edges =
     [(''zero'', Route_zero_rows), (''analyze'', Analyze),
      (''analyze_point_in_time'', Analyze_point_in_time), (''answer'', Answer)]"

definition after_zero_rows_edges :: "(string \<times> node) list" where
  "after_zero_rows_edges = [(''retry'', Generate_sparql), (''giveup'', Answer)]"

definition conditional :: "(string \<times> node) list \<Rightarrow> string \<Rightarrow> exn + node option" where
  "conditional edges r =
     (case map_of edges r of None \<Rightarrow> Inl (KeyError r) | Some n \<Rightarrow> Inr (Some n))"

text \<open>The edge out of a node; None is \<^verbatim>\<open>END\<close>.\<close>

fun next_node :: "node \<Rightarrow> state \<Rightarrow> exn + node option" where
  "next_node Intent s = Inr (Some (if USE_RAG then Rag else Normalize_time))"
| "next_node Rag s = Inr (Some Normalize_time)"
| "next_node Normalize_time s = Inr (Some Generate_sparql)"
| "next_node Generate_sparql s = Inr (Some Execute_sparql)"
| "next_node Execute_sparql s = ebind (route_after_execute s) (conditional after_execute_edges)"
| "next_node Route_zero_rows s = conditional after_zero_rows_edges (route_retry_or_end s)"
| "next_node Analyze s = Inr (Some Answer)"
| "next_node Analyze_point_in_time s = Inr (Some Answer)"
| "next_node Answer s = Inr None"

datatype outcome = Finished state | Crashed exn state | Recursion_limit state

fun exec_graph :: "nat \<Rightarrow> ('w, 't) env \<Rightarrow> node \<Rightarrow> state \<Rightarrow> 'w \<Rightarrow> outcome \<times> 'w" where
  "exec_graph 0 env n s w = (Recursion_limit s, w)"
| "exec_graph (Suc k) env n s w =
     (case handler env n (s, w) of
        (Inl e, (s', w')) \<Rightarrow> (Crashed e (declared_keys s'), w')
      | (Inr u, (s', w')) \<Rightarrow>
          (case next_node n (declared_keys s') of
             Inl e \<Rightarrow> (Crashed e (declared_keys s'), w')
           | Inr None \<Rightarrow> (Finished (declared_keys s'), w')
           | Inr (Some n') \<Rightarrow> exec_graph k env n' (declared_keys s') w'))"

definition recursion_limit :: nat where
  "recursion_limit = 25"

text \<open>\<^verbatim>\<open>agent.invoke(state)\<close>\<close>

definition invoke :: "('w, 't) env \<Rightarrow> state \<Rightarrow> 'w \<Rightarrow> outcome \<times> 'w" where
  "invoke env s w = exec_graph recursion_limit env Intent (declared_keys s) w"

section \<open>Assertions about computations\<close>

text \<open>
  \<open>hoare P m Q E\<close>: started in a store satisfying \<open>P\<close>, the computation \<open>m\<close> either
  returns \<open>x\<close> in a store satisfying \<open>Q x\<close> or raises \<open>e\<close> in a store satisfying
  \<open>E e\<close>. \<open>triple\<close> is the same for a handler, with assertions about the request
  state alone.
\<close>

definition hoare ::
  "('s \<Rightarrow> bool) \<Rightarrow> ('s, 'a) prog \<Rightarrow> ('a \<Rightarrow> 's \<Rightarrow> bool) \<Rightarrow> (exn \<Rightarrow> 's \<Rightarrow> bool) \<Rightarrow> bool" where
  "hoare P m Q E \<longleftrightarrow>
     (\<forall>s. P s \<longrightarrow> (case m s of (Inl e, s') \<Rightarrow> E e s' | (Inr x, s') \<Rightarrow> Q x s'))"

definition triple ::
  "(state \<Rightarrow> bool) \<Rightarrow> (state \<times> 'w, 'a) prog \<Rightarrow> ('a \<Rightarrow> state \<Rightarrow> bool) \<Rightarrow> (exn \<Rightarrow> state \<Rightarrow> bool) \<Rightarrow> bool" where
  "triple P m Q E = hoare (\<lambda>\<sigma>. P (fst \<sigma>)) m (\<lambda>x \<sigma>. Q x (fst \<sigma>)) (\<lambda>e \<sigma>. E e (fst \<sigma>))"

section \<open>A concrete request and environment\<close>

text \<open>The state \<^verbatim>\<open>{"question": q}\<close> that \<^verbatim>\<open>web_app.py\<close> passes to \<^verbatim>\<open>agent.invoke\<close>.\<close>

definition request :: "string \<Rightarrow> state" where
  "request q =
     \<lparr>question = Some q, need_stats = None, have_rows = None, retries = None,
      max_retries = None, hints = None, time_window = None, context_text = None,
      sparql = None, rows = None, analysis = None, analysis_error = None, answer = None,
      trace = None, topology_all_rooms = None, sparql_history = None,
      fallback_strategy = None\<rparr>"

text \<open>
  String operations on ASCII text, for the environment below: \<^verbatim>\<open>upper\<close>, \<^verbatim>\<open>lower\<close>,
  \<^verbatim>\<open>strip\<close> and \<^verbatim>\<open>split\<close>.
\<close>

definition ascii_upper :: "string \<Rightarrow> string" where
  "ascii_upper s =
     map (\<lambda>c. case map_of (zip ''abcdefghijklmnopqrstuvwxyz'' ''ABCDEFGHIJKLMNOPQRSTUVWXYZ'') c of
               Some u \<Rightarrow> u | None \<Rightarrow> c) s"

definition ascii_lower :: "string \<Rightarrow> string" where
  "ascii_lower s =
     map (\<lambda>c. case map_of (zip ''ABCDEFGHIJKLMNOPQRSTUVWXYZ'' ''abcdefghijklmnopqrstuvwxyz'') c of
               Some l \<Rightarrow> l | None \<Rightarrow> c) s"

definition is_space :: "char \<Rightarrow> bool" where
  "is_space c = (c = CHR '' '' \<or> c = CHR 0x09 \<or> c = CHR 0x0A \<or> c = CHR 0x0D)"

fun ascii_split_from :: "string \<Rightarrow> string \<Rightarrow> string list" where
  "ascii_split_from acc [] = (if acc = [] then [] else [acc])"
| "ascii_split_from acc (c # cs) =
     (if is_space c then (if acc = [] then ascii_split_from [] cs else acc # ascii_split_from [] cs)
      else ascii_split_from (acc @ [c]) cs)"

definition ascii_strip :: "string \<Rightarrow> string" where
  "ascii_strip s = rev (dropWhile is_space (rev (dropWhile is_space s)))"

definition demo_query :: string where
  "demo_query = ''SELECT ?s WHERE { ?s ?p ?o }''"

text \<open>
  A deployment without an API key: the prompt file is readable, \<^verbatim>\<open>_get_llm()\<close> answers
  None, every generator answers \<open>demo_query\<close>, the graph is loaded and the query
  matches one room. The world is trivial and so is the clock; the arithmetic on
  floats is exact, as it is on the clock readings of this environment.
\<close>

definition demo_env :: "(unit, unit) env" where
  "demo_env =
     \<lparr>load_prompt = ret (Some ''You extract intent as JSON.''),
      get_llm = (\<lambda>w. (False, w)),
      prompt_path = ''prompt/prompt.md'',
      llm_reply = (\<lambda>p q. raise (Exn ''RuntimeError'' ''no model'')),
      json_loads = (\<lambda>s. None),
      py_str = (\<lambda>v. case v of PStr s \<Rightarrow> s | _ \<Rightarrow> ''None''),
      str_lower = ascii_lower,
      str_upper = ascii_upper,
      str_strip = ascii_strip,
      str_split = ascii_split_from [],
      room_digits = (\<lambda>s. None),
      int_of_str = (\<lambda>s. Inl (Exn ''ValueError''
                      (''invalid literal for int() with base 10: '' @ [CHR 0x27] @ s @ [CHR 0x27]))),
      search = (\<lambda>q. ret (PList [])),
      build_context = (\<lambda>chunks. ret []),
      advanced_text_to_sparql = (\<lambda>q c h. ret demo_query),
      generate_topology_query = (\<lambda>h. Inr demo_query),
      generate_timeseries_query = (\<lambda>h. Inr demo_query),
      get_fallback_llm = (\<lambda>w. (False, w)),
      llm_sparql = (\<lambda>q h. raise (Exn ''RuntimeError'' ''no model'')),
      list_points_any = (\<lambda>n. demo_query),
      get_graph = ret (),
      perf_counter = (\<lambda>w. (0, w)),
      float_sub = (\<lambda>a b. a - b),
      float_mul = (\<lambda>a b. a * b),
      graph_query = (\<lambda>q. ret (Some [''s''], [[''urn:demo-building#Room_101'']])),
      analyze_state = (\<lambda>r t h. ret []),
      analyze_point_in_time_state = (\<lambda>r t. ret []),
      compose = (\<lambda>q r a h t ar. ret ''ok''),
      now_local = (\<lambda>w. ((), w)),
      start_of_day = (\<lambda>t. t),
      plus_days = (\<lambda>t d. Inr t),
      plus_hours = (\<lambda>t h. Inr t),
      strptime = (\<lambda>s f. None),
      isoformat = (\<lambda>t. ''2024-05-01T00:00:00+08:00'')\<rparr>"

text \<open>The same deployment with a graph file that cannot be loaded.\<close>

definition unloadable_env :: "(unit, unit) env" where
  "unloadable_env =
     demo_env\<lparr>get_graph := raise (Exn ''FileNotFoundError'' ''data/topology.ttl'')\<rparr>"

text \<open>
  A state as the execute-query step leaves it in that deployment: the hints are the
  neutral record and the query has matched a row.
\<close>

definition rows_found_state :: state where
  "rows_found_state =
     (request ''how warm is it'')
       \<lparr>need_stats := Some False, have_rows := Some True,
        hints := Some (neutral demo_env ''how warm is it'' ''no-llm''),
        rows := Some [[(''s'', ''urn:demo-building#Room_101'')]]\<rparr>"

text \<open>The same deployment with a prompt file that is not valid UTF-8.\<close>

definition unreadable_prompt_env :: "(unit, unit) env" where
  "unreadable_prompt_env =
     demo_env\<lparr>load_prompt := raise (Exn ''UnicodeDecodeError'' ''prompt/prompt.md'')\<rparr>"

text \<open>
  The same deployment over a graph in which the template query matches nothing and
  the query of the fallback generator, the template \<^verbatim>\<open>list_points_any\<close>, matches one room.
\<close>

definition fallback_query :: string where
  "fallback_query = ''SELECT ?room WHERE { ?room ?p ?o }''"

definition sparse_env :: "(unit, unit) env" where
  "sparse_env =
     demo_env\<lparr>list_points_any := (\<lambda>n. fallback_query),
              graph_query := (\<lambda>q. ret (Some [''s''],
                                if q = demo_query then [] else [[''urn:demo-building#Room_101'']]))\<rparr>"






section \<open>Rules for computations\<close>

lemmas prog_defs = ret_def raise_def bind_def seq_def try_except_def attempt_def total_op_def
  lift_def gets_def modify_def call_def item_def append_trace_def

lemma hoareI:
  assumes "\<And>s e s'. P s \<Longrightarrow> m s = (Inl e, s') \<Longrightarrow> E e s'"
    and "\<And>s x s'. P s \<Longrightarrow> m s = (Inr x, s') \<Longrightarrow> Q x s'"
  shows "hoare P m Q E"
  unfolding hoare_def using assms by (auto split: prod.splits sum.splits)

lemma hoareD_raise: "hoare P m Q E \<Longrightarrow> P s \<Longrightarrow> m s = (Inl e, s') \<Longrightarrow> E e s'"
  unfolding hoare_def by fastforce

lemma hoareD_return: "hoare P m Q E \<Longrightarrow> P s \<Longrightarrow> m s = (Inr x, s') \<Longrightarrow> Q x s'"
  unfolding hoare_def by fastforce

lemma hoare_pre: "hoare P' m Q E \<Longrightarrow> (\<And>s. P s \<Longrightarrow> P' s) \<Longrightarrow> hoare P m Q E"
  by (simp add: hoare_def)

lemma hoare_bind:
  assumes f: "\<And>x. hoare (R x) (f x) Q E" and m: "hoare P m R E"
  shows "hoare P (bind m f) Q E"
proof (rule hoareI)
  fix s e s' assume P: "P s" and b: "bind m f s = (Inl e, s')"
  show "E e s'"
  proof (cases "m s")
    case (Pair r s1)
    show ?thesis
    proof (cases r)
      case (Inl e1)
      with Pair b have "e1 = e" "s1 = s'" by (simp_all add: bind_def)
      with hoareD_raise [OF m P] Pair Inl show ?thesis by simp
    next
      case (Inr x)
      with Pair b have "f x s1 = (Inl e, s')" by (simp add: bind_def)
      moreover from hoareD_return [OF m P] Pair Inr have "R x s1" by simp
      ultimately show ?thesis using hoareD_raise [OF f] by blast
    qed
  qed
next
  fix s y s' assume P: "P s" and b: "bind m f s = (Inr y, s')"
  show "Q y s'"
  proof (cases "m s")
    case (Pair r s1)
    show ?thesis
    proof (cases r)
      case (Inl e1)
      with Pair b show ?thesis by (simp add: bind_def)
    next
      case (Inr x)
      with Pair b have "f x s1 = (Inr y, s')" by (simp add: bind_def)
      moreover from hoareD_return [OF m P] Pair Inr have "R x s1" by simp
      ultimately show ?thesis using hoareD_return [OF f] by blast
    qed
  qed
qed

lemma hoare_try:
  assumes h: "\<And>e. hoare (R e) (h e) Q E" and m: "hoare P m Q R"
  shows "hoare P (try_except m h) Q E"
proof (rule hoareI)
  fix s e s' assume P: "P s" and b: "try_except m h s = (Inl e, s')"
  show "E e s'"
  proof (cases "m s")
    case (Pair r s1)
    show ?thesis
    proof (cases r)
      case (Inl e1)
      with Pair b have "h e1 s1 = (Inl e, s')" by (simp add: try_except_def)
      moreover from hoareD_raise [OF m P] Pair Inl have "R e1 s1" by simp
      ultimately show ?thesis using hoareD_raise [OF h] by blast
    next
      case (Inr x)
      with Pair b show ?thesis by (simp add: try_except_def)
    qed
  qed
next
  fix s y s' assume P: "P s" and b: "try_except m h s = (Inr y, s')"
  show "Q y s'"
  proof (cases "m s")
    case (Pair r s1)
    show ?thesis
    proof (cases r)
      case (Inl e1)
      with Pair b have "h e1 s1 = (Inr y, s')" by (simp add: try_except_def)
      moreover from hoareD_raise [OF m P] Pair Inl have "R e1 s1" by simp
      ultimately show ?thesis using hoareD_return [OF h] by blast
    next
      case (Inr x)
      with Pair b have "x = y" "s1 = s'" by (simp_all add: try_except_def)
      with hoareD_return [OF m P] Pair Inr show ?thesis by simp
    qed
  qed
qed

lemma tripleD:
  assumes "triple P m Q E" and "P s" and "m (s, w) = (r, (s', w'))"
  shows "case r of Inl e \<Rightarrow> E e s' | Inr x \<Rightarrow> Q x s'"
proof (cases r)
  case (Inl e)
  with assms(3) hoareD_raise [OF assms(1) [unfolded triple_def], of "(s, w)" e "(s', w')"] assms(2)
  show ?thesis by simp
next
  case (Inr x)
  with assms(3) hoareD_return [OF assms(1) [unfolded triple_def], of "(s, w)" x "(s', w')"] assms(2)
  show ?thesis by simp
qed

lemma triple_pre: "triple P' m Q E \<Longrightarrow> (\<And>s. P s \<Longrightarrow> P' s) \<Longrightarrow> triple P m Q E"
  unfolding triple_def by (erule hoare_pre) simp

lemma triple_ret: "triple (Q x) (ret x) Q E"
  by (simp add: triple_def hoare_def ret_def)

lemma triple_lift: "triple (\<lambda>s. case r of Inl e \<Rightarrow> E e s | Inr x \<Rightarrow> Q x s) (lift r) Q E"
  by (simp add: triple_def hoare_def lift_def split: sum.splits)

lemma triple_bind: "(\<And>x. triple (R x) (f x) Q E) \<Longrightarrow> triple P m R E \<Longrightarrow> triple P (bind m f) Q E"
  unfolding triple_def by (rule hoare_bind)

lemma triple_seq: "triple R n Q E \<Longrightarrow> triple P m (\<lambda>_. R) E \<Longrightarrow> triple P (seq m n) Q E"
  unfolding seq_def by (rule triple_bind)

lemma triple_try: "(\<And>e. triple (R e) (h e) Q E) \<Longrightarrow> triple P m Q R \<Longrightarrow> triple P (try_except m h) Q E"
  unfolding triple_def by (rule hoare_try)

lemma triple_if: "triple P1 a Q E \<Longrightarrow> triple P2 b Q E \<Longrightarrow> triple (\<lambda>s. if c then P1 s else P2 s) (if c then a else b) Q E"
  by (simp add: triple_def hoare_def)

lemma triple_gets: "triple (\<lambda>s. Q (f s) s) (gets f) Q E"
  by (simp add: triple_def hoare_def gets_def)

lemma triple_modify: "triple (\<lambda>s. Q () (f s)) (modify f) Q E"
  by (simp add: triple_def hoare_def modify_def)

lemma triple_append_trace: "triple (\<lambda>s. Q () (s\<lparr>trace := Some (or_default [] (trace s) @ [name])\<rparr>)) (append_trace name) Q E"
  by (simp add: triple_def hoare_def modify_def append_trace_def)

lemma triple_item: "triple (\<lambda>s. case f s of None \<Rightarrow> E (KeyError k) s | Some v \<Rightarrow> Q v s) (item f k) Q E"
  by (simp add: triple_def hoare_def item_def split: option.splits)

text \<open>A collaborator call of which nothing is known.\<close>

lemma triple_call: "triple (\<lambda>s. (\<forall>x. Q x s) \<and> (\<forall>e. E e s)) (call c) Q E"
  unfolding triple_def by (rule hoareI) (auto simp add: call_def split: prod.splits)

text \<open>A collaborator call known to return, with a result satisfying \<open>G\<close>.\<close>

lemma triple_call_returns:
  assumes "\<And>w. \<exists>x w'. c w = (Inr x, w') \<and> G x"
  shows "triple (\<lambda>s. \<forall>x. G x \<longrightarrow> Q x s) (call c) Q E"
  unfolding triple_def
proof (rule hoareI)
  fix s :: "state \<times> 'a" and e s'
  assume "call c s = (Inl e, s')"
  with assms [of "snd s"] show "E e (fst s')" by (auto simp add: call_def)
next
  fix s :: "state \<times> 'a" and x s'
  assume "\<forall>x. G x \<longrightarrow> Q x (fst s)" and "call c s = (Inr x, s')"
  with assms [of "snd s"] show "Q x (fst s')" by (auto simp add: call_def)
qed

lemmas wp = triple_ret triple_lift triple_bind triple_seq triple_try triple_if triple_gets
  triple_modify triple_append_trace triple_item triple_call

section \<open>Dictionaries\<close>

lemma dict_get_dict_set: "dict_get (dict_set k v d) k' = (if k' = k then Some v else dict_get d k')"
  by (induction d) (auto simp add: dict_get_def)

section \<open>The build-query step\<close>

text \<open>
  Claim C6. When \<^verbatim>\<open>sparql\<close> is already non-empty, build-query (\<^verbatim>\<open>node_generate_sparql\<close>)
  returns normally without calling any collaborator (the world is unchanged); the
  state it leaves differs from the one it found in the trace only, so \<^verbatim>\<open>sparql\<close>
  and \<^verbatim>\<open>sparql_history\<close> are untouched.
\<close>

theorem generate_sparql_skips_present_query:
  assumes "sparql s = Some q" and "q \<noteq> []"
  shows "\<exists>s'. node_generate_sparql env (s, w) = (Inr (), (s', w))
            \<and> s' = s\<lparr>trace := Some (or_default [] (trace s) @ [''generate_sparql''])\<rparr>
            \<and> sparql s' = Some q \<and> sparql_history s' = sparql_history s"
  using assms by (simp add: node_generate_sparql_def prog_defs or_default_def)

theorem generate_sparql_skips_present_query_witness:
  "sparql ((request ''how warm is room 101'')\<lparr>sparql := Some demo_query\<rparr>) = Some demo_query
   \<and> demo_query \<noteq> []
   \<and> (\<exists>s'. node_generate_sparql demo_env
               ((request ''how warm is room 101'')\<lparr>sparql := Some demo_query\<rparr>, ()) = (Inr (), (s', ()))
          \<and> sparql s' = Some demo_query \<and> sparql_history s' = None)"
proof -
  have 1: "sparql ((request ''how warm is room 101'')\<lparr>sparql := Some demo_query\<rparr>) = Some demo_query"
    by simp
  have 2: "demo_query \<noteq> []" by (simp add: demo_query_def)
  from generate_sparql_skips_present_query [OF 1 2, of demo_env "()"] 1 2
  show ?thesis by (auto simp add: request_def)
qed

section \<open>The retry router\<close>

text \<open>
  Claim C4. \<^verbatim>\<open>route_retry_or_end\<close> answers \<^verbatim>\<open>retry\<close> exactly when the retries counter (0
  when absent) is below 2 and \<^verbatim>\<open>giveup\<close> otherwise; changing the field \<^verbatim>\<open>max_retries\<close>
  does not change its answer; the intent step leaves \<^verbatim>\<open>max_retries\<close> at 1 whatever its
  collaborator does.
\<close>

theorem route_retry_or_end_hardcoded_bound:
  "(route_retry_or_end s = ''retry'' \<longleftrightarrow> or_default 0 (retries s) < 2)
   \<and> (route_retry_or_end s = ''giveup'' \<longleftrightarrow> \<not> or_default 0 (retries s) < 2)
   \<and> route_retry_or_end (s\<lparr>max_retries := m\<rparr>) = route_retry_or_end s
   \<and> max_retries (fst (snd (node_intent env (s, w)))) = Some 1"
proof -
  have "triple (\<lambda>_. True) (node_intent env) (\<lambda>_ s'. max_retries s' = Some 1) (\<lambda>_ s'. max_retries s' = Some 1)"
    unfolding node_intent_def
    apply (rule triple_pre)
     apply (rule wp)+
    apply (simp split: option.splits)
    done
  from tripleD [OF this, of s w "fst (node_intent env (s, w))" "fst (snd (node_intent env (s, w)))" "snd (snd (node_intent env (s, w)))"]
  have "max_retries (fst (snd (node_intent env (s, w)))) = Some 1"
    by (simp split: sum.splits)
  then show ?thesis by (simp add: route_retry_or_end_def)
qed

section \<open>Time-window normalization\<close>

lemma normalize_body_unrecognized:
  assumes "dict_get d ''kind'' \<noteq> Some (PStr ''relative_days'')"
    and "dict_get d ''kind'' \<noteq> Some (PStr ''last_hours'')"
    and "dict_get d ''kind'' \<noteq> Some (PStr ''absolute'')"
    and "dict_get d ''kind'' \<noteq> Some (PStr ''point_in_time'')"
  shows "normalize_body env now (PDict d) = Inr window_none"
  using assms by (simp add: normalize_body_def attr_get_def ebind_def)

lemma normalize_time_never_raises: "\<exists>tw w'. normalize_time env h w = (Inr tw, w')"
  by (simp add: normalize_time_def prog_defs Let_def split: prod.splits sum.splits)

text \<open>
  Claim C9. When \<^verbatim>\<open>time_range\<close> is absent from the hints, or is null or empty, or
  is a mapping whose \<^verbatim>\<open>kind\<close> is none of \<^verbatim>\<open>relative_days\<close>, \<^verbatim>\<open>last_hours\<close>, \<^verbatim>\<open>absolute\<close>,
  \<^verbatim>\<open>point_in_time\<close>, \<^verbatim>\<open>normalize_time\<close> returns the window with \<^verbatim>\<open>start_local\<close> and
  \<^verbatim>\<open>end_local\<close> null, \<^verbatim>\<open>ok\<close> true, \<^verbatim>\<open>error\<close> null and the label \<open>label_no_time\<close>, the
  source's literal for "(no time constraint)".
\<close>

theorem normalize_time_without_constraint:
  assumes "case dict_get h ''time_range'' of
             None \<Rightarrow> True
           | Some v \<Rightarrow>
               \<not> truthy v
               \<or> (\<exists>d. v = PDict d
                      \<and> dict_get d ''kind'' \<noteq> Some (PStr ''relative_days'')
                      \<and> dict_get d ''kind'' \<noteq> Some (PStr ''last_hours'')
                      \<and> dict_get d ''kind'' \<noteq> Some (PStr ''absolute'')
                      \<and> dict_get d ''kind'' \<noteq> Some (PStr ''point_in_time''))"
  shows "fst (normalize_time env h w) =
           Inr [(''start_local'', PNone), (''end_local'', PNone), (''label'', PStr label_no_time),
                (''ok'', PBool True), (''error'', PNone)]"
proof -
  have empty: "normalize_body env now (PDict []) = Inr window_none" for now
    by (rule normalize_body_unrecognized) (simp_all add: dict_get_def)
  show ?thesis
  proof (cases "dict_get h ''time_range''")
    case None
    then show ?thesis
      by (simp add: normalize_time_def prog_defs empty window_none_def split: prod.splits)
  next
    case (Some v)
    show ?thesis
    proof (cases "truthy v")
      case False
      with Some show ?thesis
        by (simp add: normalize_time_def prog_defs empty window_none_def split: prod.splits)
    next
      case True
      with Some assms obtain d where d: "v = PDict d"
        "dict_get d ''kind'' \<noteq> Some (PStr ''relative_days'')"
        "dict_get d ''kind'' \<noteq> Some (PStr ''last_hours'')"
        "dict_get d ''kind'' \<noteq> Some (PStr ''absolute'')"
        "dict_get d ''kind'' \<noteq> Some (PStr ''point_in_time'')"
        by auto
      have "normalize_body env now v = Inr window_none" for now
        unfolding d(1) by (rule normalize_body_unrecognized [OF d(2-5)])
      with Some True show ?thesis
        by (simp add: normalize_time_def prog_defs split: prod.splits) (simp add: window_none_def)
    qed
  qed
qed

theorem normalize_time_without_constraint_witness:
  "dict_get (neutral demo_env ''how many rooms'' ''no-llm'') ''time_range'' = Some PNone
   \<and> \<not> truthy PNone
   \<and> fst (normalize_time demo_env (neutral demo_env ''how many rooms'' ''no-llm'') ()) =
       Inr [(''start_local'', PNone), (''end_local'', PNone), (''label'', PStr label_no_time),
            (''ok'', PBool True), (''error'', PNone)]"
proof -
  have 1: "dict_get (neutral demo_env ''how many rooms'' ''no-llm'') ''time_range'' = Some PNone"
    by (simp add: neutral_def dict_get_def)
  from normalize_time_without_constraint [of "neutral demo_env ''how many rooms'' ''no-llm''" demo_env "()"] 1
  show ?thesis by simp
qed

section \<open>The query executor\<close>

lemma execute_rejects_failed_check:
  "\<not> basic_syntax_check env query \<Longrightarrow> execute env query w = (Inr [], w)"
  by (simp add: execute_def ret_def)

lemma execute_unbalanced_brackets:
  "\<not> brackets_ok [] query \<Longrightarrow> execute env query w = (Inr [], w)"
  by (simp add: execute_rejects_failed_check basic_syntax_check_def)

lemma execute_query_error:
  assumes "basic_syntax_check env query"
    and "get_graph env w = (Inr (), w1)" and "perf_counter env w1 = (t0, w2)"
    and "graph_query env query w2 = (Inl e, w3)"
  shows "execute env query w = (Inr [], w3)"
  using assms by (simp add: execute_def prog_defs)

lemma demo_syntax_ok: "basic_syntax_check (demo_env\<lparr>get_graph := g\<rparr>) demo_query"
proof -
  have "brackets_ok [] demo_query"
    by (simp add: demo_query_def is_closing_def)
  moreover have "\<not> uses_prefix (demo_env\<lparr>get_graph := g\<rparr>) demo_query"
    by (simp add: uses_prefix_def demo_env_def demo_query_def is_space_def)
  ultimately show ?thesis
    by (simp add: basic_syntax_check_def demo_query_def)
qed

text \<open>
  Claim C8. \<^verbatim>\<open>execute\<close> calls \<^verbatim>\<open>_get_graph()\<close> before its \<^verbatim>\<open>try\<close>: with a graph file that
  cannot be loaded, a query that passes the syntax check makes \<^verbatim>\<open>execute\<close> raise.
\<close>

theorem execute_raises_on_unloadable_graph:
  "execute unloadable_env demo_query () = (Inl (Exn ''FileNotFoundError'' ''data/topology.ttl''), ())"
  unfolding unloadable_env_def
  by (simp add: execute_def demo_syntax_ok) (simp add: prog_defs)


















lemma execute_no_vars:
  assumes "basic_syntax_check env query"
    and "get_graph env w = (Inr (), w1)" and "perf_counter env w1 = (t0, w2)"
    and "graph_query env query w2 = (Inr (None, rws), w3)"
    and "perf_counter env w3 = (t1, w4)"
  shows "\<exists>e. execute env query w = (Inl e, w4) \<and> exn_type e = ''TypeError''"
  using assms by (simp add: execute_def prog_defs vars_of_def)




section \<open>The router after execution\<close>

lemma route_after_execute_zero:
  "\<not> or_default False (have_rows s) \<Longrightarrow> route_after_execute s = Inr ''zero''"
  by (simp add: route_after_execute_def)

lemma route_after_execute_topology:
  assumes "or_default False (have_rows s)"
    and "dict_get (or_default [] (hints s)) ''question_type'' = Some (PStr ''topology'')"
  shows "route_after_execute s = Inr ''answer''"
  using assms by (simp add: route_after_execute_def)

text \<open>
  The decision table of \<^verbatim>\<open>route_after_execute\<close>, for a state whose \<^verbatim>\<open>time_range\<close> is
  absent from the hints or is a mapping.
\<close>

lemma route_after_execute_table:
  assumes "dict_get (or_default [] (hints s)) ''time_range'' = None \<and> tr = []
           \<or> dict_get (or_default [] (hints s)) ''time_range'' = Some (PDict tr)"
  shows "route_after_execute s =
           Inr (if \<not> or_default False (have_rows s) then ''zero''
                else if dict_get (or_default [] (hints s)) ''question_type'' = Some (PStr ''topology'')
                  then ''answer''
                else if dict_get tr ''kind'' = Some (PStr ''point_in_time'')
                  then ''analyze_point_in_time''
                else if or_default False (need_stats s)
                        \<or> (\<exists>x xs. dict_get (or_default [] (hints s)) ''need'' = Some (PList (x # xs)))
                  then ''analyze''
                else ''answer'')"
proof -
  have need: "(case dict_get (or_default [] (hints s)) ''need'' of
                 Some (PList xs) \<Rightarrow> xs \<noteq> [] | _ \<Rightarrow> False)
              = (\<exists>x xs. dict_get (or_default [] (hints s)) ''need'' = Some (PList (x # xs)))"
    by (auto split: option.splits pyval.splits simp add: neq_Nil_conv)
  from assms show ?thesis
    by (auto simp add: route_after_execute_def Let_def need attr_get_def ebind_def or_default_def [of "PDict []"])
qed

text \<open>The router raises exactly when it reaches a \<^verbatim>\<open>time_range\<close> that is no mapping.\<close>

lemma route_after_execute_raises_iff:
  "(\<exists>e. route_after_execute s = Inl e) \<longleftrightarrow>
     or_default False (have_rows s)
     \<and> dict_get (or_default [] (hints s)) ''question_type'' \<noteq> Some (PStr ''topology'')
     \<and> (\<exists>v. dict_get (or_default [] (hints s)) ''time_range'' = Some v \<and> (\<forall>d. v \<noteq> PDict d))"
  by (auto simp add: route_after_execute_def Let_def attr_get_def ebind_def or_default_def [of "PDict []"]
      split: option.splits pyval.splits)

text \<open>
  Claim C3. The state has rows, is no topology question and carries the neutral
  hints of \<^verbatim>\<open>_neutral\<close>, whose \<^verbatim>\<open>time_range\<close> is None: \<^verbatim>\<open>route_after_execute\<close> raises
  \<^verbatim>\<open>AttributeError\<close>, where the decision table of the claim answers \<^verbatim>\<open>answer\<close>.
\<close>

theorem route_after_execute_raises_on_null_time_range:
  "route_after_execute rows_found_state = Inl (AttributeError PNone ''get'')"
  by (simp add: route_after_execute_def rows_found_state_def request_def neutral_def
      or_default_def dict_get_def attr_get_def ebind_def)

section \<open>No handler raises\<close>

lemma normalize_time_returns: "\<exists>x w'. normalize_time env h w = (Inr x, w') \<and> True"
  using normalize_time_never_raises [of env h w] by simp

lemmas wp_total = triple_call_returns [where G = "\<lambda>_. True", OF normalize_time_returns] wp

lemma node_intent_total: "triple (\<lambda>_. True) (node_intent env) (\<lambda>_ _. True) (\<lambda>_ _. False)"
  unfolding node_intent_def
  by (rule triple_pre, (rule wp)+) (simp split: option.splits)

lemma node_rag_total: "triple (\<lambda>_. True) (node_rag env) (\<lambda>_ _. True) (\<lambda>_ _. False)"
  unfolding node_rag_def
  by (rule triple_pre, (rule wp)+) (simp split: option.splits)

lemma node_normalize_time_total:
  "triple (\<lambda>_. True) (node_normalize_time env) (\<lambda>_ _. True) (\<lambda>_ _. False)"
  unfolding node_normalize_time_def
  by (rule triple_pre, (rule wp_total)+) simp

lemma node_generate_sparql_total:
  "triple (\<lambda>_. True) (node_generate_sparql env) (\<lambda>_ _. True) (\<lambda>_ _. False)"
  unfolding node_generate_sparql_def generate_def Let_def
  by (rule triple_pre, (rule wp)+) (simp split: option.splits sum.splits)

lemma node_execute_sparql_total:
  "triple (\<lambda>_. True) (node_execute_sparql env) (\<lambda>_ _. True) (\<lambda>_ _. False)"
  unfolding node_execute_sparql_def
  by (rule triple_pre, (rule wp)+) (simp split: option.splits)

lemma node_route_zero_rows_total:
  "triple (\<lambda>_. True) (node_route_zero_rows env) (\<lambda>_ _. True) (\<lambda>_ _. False)"
  unfolding node_route_zero_rows_def llm_fallback_def rag_enhanced_def Let_def
  by (rule triple_pre, (rule wp)+) (simp split: option.splits)

lemma node_analyze_total: "triple (\<lambda>_. True) (node_analyze env) (\<lambda>_ _. True) (\<lambda>_ _. False)"
  unfolding node_analyze_def analysis_failed_def
  by (rule triple_pre, (rule wp)+) (simp split: option.splits)

lemma node_analyze_point_in_time_total:
  "triple (\<lambda>_. True) (node_analyze_point_in_time env) (\<lambda>_ _. True) (\<lambda>_ _. False)"
  unfolding node_analyze_point_in_time_def analysis_failed_def
  by (rule triple_pre, (rule wp)+) (simp split: option.splits)

lemma node_answer_total: "triple (\<lambda>_. True) (node_answer env) (\<lambda>_ _. True) (\<lambda>_ _. False)"
  unfolding node_answer_def
  by (rule triple_pre, (rule wp)+) (simp split: option.splits)

text \<open>
  Every step handler returns normally, whatever its collaborators do: each exception
  is caught inside the handler.
\<close>

lemma handler_never_raises: "\<exists>s' w'. handler env n (s, w) = (Inr (), (s', w'))"
proof -
  have t: "triple (\<lambda>_. True) (handler env n) (\<lambda>_ _. True) (\<lambda>_ _. False)"
    by (cases n)
       (simp_all add: node_intent_total node_rag_total node_normalize_time_total
          node_generate_sparql_total node_execute_sparql_total node_route_zero_rows_total
          node_analyze_total node_analyze_point_in_time_total node_answer_total)
  obtain r s' w' where h: "handler env n (s, w) = (r, (s', w'))"
    by (cases "handler env n (s, w)") auto
  from tripleD [OF t _ h] show ?thesis using h by (cases r) auto
qed

section \<open>The intent step\<close>

lemma llm_parse_cases:
  obtains
    (raise) e w1 where "load_prompt env w = (Inl e, w1)" "llm_parse env q w = (Inl e, w1)"
  | (neutral) reason w' where
      "reason = ''no-prompt'' \<or> reason = ''no-llm'' \<or> reason = ''llm-error'' \<or> reason = ''parse-error''"
      "llm_parse env q w = (Inr (neutral env q reason), w')"
  | (parsed) p w1 w2 reply w3 data where
      "load_prompt env w = (Inr (Some p), w1)" "p \<noteq> []" "get_llm env w1 = (True, w2)"
      "llm_reply env p q w2 = (Inr reply, w3)" "safe_json_from_text env reply = Some data"
      "data \<noteq> []" "llm_parse env q w = (Inr (clean_hints env data), w3)"
proof -
  obtain r1 w1 where l: "load_prompt env w = (r1, w1)" by (cases "load_prompt env w")
  show ?thesis
  proof (cases r1)
    case (Inl e)
    with l have "llm_parse env q w = (Inl e, w1)" by (simp add: llm_parse_def prog_defs)
    with l Inl show ?thesis by (intro raise [of e w1]) simp_all
  next
    case (Inr prompt)
    show ?thesis
    proof (cases "prompt = None \<or> prompt = Some []")
      case True
      with l Inr have "llm_parse env q w = (Inr (neutral env q ''no-prompt''), w1)"
        by (auto simp add: llm_parse_def prog_defs)
      then show ?thesis by (intro neutral [of "''no-prompt''" w1]) simp_all
    next
      case False
      then obtain p where p: "prompt = Some p" "p \<noteq> []" by auto
      with l Inr have l': "load_prompt env w = (Inr (Some p), w1)" by simp
      obtain llm w2 where g: "get_llm env w1 = (llm, w2)" by (cases "get_llm env w1")
      show ?thesis
      proof (cases llm)
        case False
        with l' p g have "llm_parse env q w = (Inr (neutral env q ''no-llm''), w2)"
          by (simp add: llm_parse_def prog_defs)
        then show ?thesis by (intro neutral [of "''no-llm''" w2]) simp_all
      next
        case True
        with g have g': "get_llm env w1 = (True, w2)" by simp
        obtain r3 w3 where t: "llm_reply env p q w2 = (r3, w3)" by (cases "llm_reply env p q w2")
        show ?thesis
        proof (cases r3)
          case (Inl e)
          with l' p g' t have "llm_parse env q w = (Inr (neutral env q ''llm-error''), w3)"
            by (simp add: llm_parse_def prog_defs)
          then show ?thesis by (intro neutral [of "''llm-error''" w3]) simp_all
        next
          case r3: (Inr reply)
          with t have t': "llm_reply env p q w2 = (Inr reply, w3)" by simp
          show ?thesis
          proof (cases "safe_json_from_text env reply")
            case None
            with l' p g' t' have "llm_parse env q w = (Inr (neutral env q ''parse-error''), w3)"
              by (simp add: llm_parse_def prog_defs)
            then show ?thesis by (intro neutral [of "''parse-error''" w3]) simp_all
          next
            case (Some data)
            show ?thesis
            proof (cases "data = []")
              case True
              with l' p g' t' Some
              have "llm_parse env q w = (Inr (neutral env q ''parse-error''), w3)"
                by (simp add: llm_parse_def prog_defs)
              then show ?thesis by (intro neutral [of "''parse-error''" w3]) simp_all
            next
              case False
              with l' p g' t' Some
              have "llm_parse env q w = (Inr (clean_hints env data), w3)"
                by (simp add: llm_parse_def prog_defs)
              with l' p(2) g' t' Some False show ?thesis by (intro parsed)
            qed
          qed
        qed
      qed
    qed
  qed
qed

lemma rag_need_stats_never_raises: "\<exists>b w'. rag_need_stats env q w = (Inr b, w')"
proof -
  obtain r w1 where "llm_parse env q w = (r, w1)" by (cases "llm_parse env q w")
  then show ?thesis by (cases r) (auto simp add: rag_need_stats_def prog_defs)
qed

lemma node_intent_hints:
  assumes "question s = Some q" and "get_hints env q w = (r, w1)"
  shows "hints (fst (snd (node_intent env (s, w)))) = Some (case r of Inl e \<Rightarrow> [] | Inr h \<Rightarrow> h)"
proof (cases r)
  case (Inl e)
  with assms show ?thesis by (simp add: node_intent_def prog_defs)
next
  case (Inr h)
  from rag_need_stats_never_raises [of env q w1] obtain b w2 where
    "rag_need_stats env q w1 = (Inr b, w2)" by blast
  with assms Inr show ?thesis by (simp add: node_intent_def prog_defs)
qed

lemma node_intent_need_stats_on_raise:
  assumes "question s = Some q" and "get_hints env q w = (Inl e, w1)"
  shows "need_stats (fst (snd (node_intent env (s, w)))) = Some False"
  using assms by (simp add: node_intent_def prog_defs)

text \<open>
  Claim C7, as amended. The intent step ends in one of three ways. Reading the prompt
  file raises, \<^verbatim>\<open>get_hints\<close> raises with it, and the handler sets \<^verbatim>\<open>hints\<close> to the empty
  mapping and \<^verbatim>\<open>need_stats\<close> to false. Or \<^verbatim>\<open>get_hints\<close> cannot produce hints (no prompt
  text, no model handle, a failing model call, a reply that is no non-empty JSON
  object) and \<^verbatim>\<open>hints\<close> is the neutral record: \<^verbatim>\<open>question_type\<close> "other", \<^verbatim>\<open>uncertain\<close>
  true, \<^verbatim>\<open>need_stats\<close> false, \<^verbatim>\<open>ambiguities\<close> empty, \<^verbatim>\<open>topology_intent\<close>, \<^verbatim>\<open>need\<close>, \<^verbatim>\<open>room\<close>,
  \<^verbatim>\<open>metric\<close> and \<^verbatim>\<open>time_range\<close> None, and the two keys \<^verbatim>\<open>_source\<close> and \<^verbatim>\<open>_prompt\<close>. Or the
  model replied with a non-empty JSON object and \<^verbatim>\<open>hints\<close> is its cleaned record.
\<close>

theorem node_intent_hints_on_failure:
  assumes "question s = Some q"
  shows "((\<exists>e. fst (load_prompt env w) = Inl e \<and> fst (get_hints env q w) = Inl e)
          \<and> hints (fst (snd (node_intent env (s, w)))) = Some []
          \<and> need_stats (fst (snd (node_intent env (s, w)))) = Some False)
       \<or> (\<exists>reason.
            (reason = ''no-prompt'' \<or> reason = ''no-llm'' \<or> reason = ''llm-error''
              \<or> reason = ''parse-error'')
          \<and> fst (get_hints env q w) = Inr (neutral env q reason)
          \<and> hints (fst (snd (node_intent env (s, w)))) = Some (neutral env q reason)
          \<and> neutral env q reason =
              [(''question_type'', PStr ''other''), (''topology_intent'', PNone),
               (''need_stats'', PBool False), (''need'', PNone), (''room'', PNone),
               (''metric'', PNone), (''time_range'', PNone), (''uncertain'', PBool True),
               (''ambiguities'', PList []), (''_source'', PStr reason),
               (''_prompt'', PStr (prompt_path env))])
       \<or> (\<exists>p w1 w2 text w3 data.
            load_prompt env w = (Inr (Some p), w1) \<and> p \<noteq> [] \<and> get_llm env w1 = (True, w2)
          \<and> llm_reply env p q w2 = (Inr text, w3) \<and> safe_json_from_text env text = Some data
          \<and> data \<noteq> []
          \<and> hints (fst (snd (node_intent env (s, w)))) = Some (clean_hints env data))"
proof -
  let ?s' = "fst (snd (node_intent env (s, w)))"
  have hints: "hints ?s' = Some (case r of Inl e \<Rightarrow> [] | Inr h \<Rightarrow> h)"
    if "llm_parse env q w = (r, w1)" for r w1
    using node_intent_hints [OF assms, of env w r w1] that by (simp add: get_hints_def)
  show ?thesis
  proof (cases rule: llm_parse_cases [of env w q])
    case (raise e w1)
    from raise(2) have "get_hints env q w = (Inl e, w1)" by (simp add: get_hints_def)
    then have "need_stats ?s' = Some False"
      by (rule node_intent_need_stats_on_raise [OF assms])
    with hints [OF raise(2)] raise
    have "(\<exists>e. fst (load_prompt env w) = Inl e \<and> fst (get_hints env q w) = Inl e)
          \<and> hints ?s' = Some [] \<and> need_stats ?s' = Some False"
      by (simp add: get_hints_def)
    then show ?thesis by (rule disjI1)
  next
    case (neutral reason w')
    from hints [OF neutral(2)] neutral have
      "fst (get_hints env q w) = Inr (neutral env q reason)"
      "hints ?s' = Some (neutral env q reason)"
      by (simp_all add: get_hints_def)
    with neutral(1) show ?thesis
      by (intro disjI2 disjI1 exI [of _ reason]) (simp add: neutral_def)
  next
    case (parsed p w1 w2 reply w3 data)
    from hints [OF parsed(7)] have "hints ?s' = Some (clean_hints env data)" by simp
    with parsed(1-6) have
      "\<exists>p w1 w2 text w3 data.
            load_prompt env w = (Inr (Some p), w1) \<and> p \<noteq> [] \<and> get_llm env w1 = (True, w2)
          \<and> llm_reply env p q w2 = (Inr text, w3) \<and> safe_json_from_text env text = Some data
          \<and> data \<noteq> []
          \<and> hints ?s' = Some (clean_hints env data)"
      by blast
    then show ?thesis by (intro disjI2)
  qed
qed

lemma demo_llm_parse: "llm_parse demo_env q w = (Inr (neutral demo_env q ''no-llm''), w)"
  by (simp add: llm_parse_def prog_defs demo_env_def)

theorem node_intent_hints_on_failure_witness:
  "question (request ''how many rooms'') = Some ''how many rooms''
   \<and> fst (get_hints demo_env ''how many rooms'' ()) =
       Inr (neutral demo_env ''how many rooms'' ''no-llm'')
   \<and> hints (fst (snd (node_intent demo_env (request ''how many rooms'', ())))) =
       Some (neutral demo_env ''how many rooms'' ''no-llm'')"
proof -
  have q: "question (request ''how many rooms'') = Some ''how many rooms''"
    by (simp add: request_def)
  have g: "fst (get_hints demo_env ''how many rooms'' ()) =
      Inr (neutral demo_env ''how many rooms'' ''no-llm'')"
    by (simp add: get_hints_def demo_llm_parse)
  have l: "fst (load_prompt demo_env ()) = Inr (Some ''You extract intent as JSON.'')"
    by (simp add: demo_env_def ret_def)
  have n: "get_llm demo_env () = (False, ())"
    by (simp add: demo_env_def)
  have h: "hints (fst (snd (node_intent demo_env (request ''how many rooms'', ())))) =
      Some (neutral demo_env ''how many rooms'' reason)
      \<Longrightarrow> fst (get_hints demo_env ''how many rooms'' ()) = Inr (neutral demo_env ''how many rooms'' reason)
      \<Longrightarrow> hints (fst (snd (node_intent demo_env (request ''how many rooms'', ())))) =
      Some (neutral demo_env ''how many rooms'' ''no-llm'')" for reason
    using g by simp
  from node_intent_hints_on_failure [OF q, of demo_env "()"]
  have "hints (fst (snd (node_intent demo_env (request ''how many rooms'', ())))) =
      Some (neutral demo_env ''how many rooms'' ''no-llm'')"
    using g l n h by (elim disjE exE conjE) simp_all
  with q g show ?thesis by simp
qed

text \<open>
  The claim as stated fails where the prompt file cannot be read: the hints are the
  empty mapping, with no \<^verbatim>\<open>question_type\<close> and no \<^verbatim>\<open>uncertain\<close>.
\<close>

theorem node_intent_raise_counterexample:
  "hints (fst (snd (node_intent unreadable_prompt_env (request ''how many rooms'', ())))) = Some []
   \<and> dict_get ([] :: dict) ''question_type'' \<noteq> Some (PStr ''other'')
   \<and> dict_get ([] :: dict) ''uncertain'' \<noteq> Some (PBool True)"
proof -
  have "get_hints unreadable_prompt_env ''how many rooms'' () =
      (Inl (Exn ''UnicodeDecodeError'' ''prompt/prompt.md''), ())"
    by (simp add: get_hints_def llm_parse_def prog_defs unreadable_prompt_env_def)
  from node_intent_hints [OF _ this, of "request ''how many rooms''"] show ?thesis
    by (simp add: request_def dict_get_def)
qed

section \<open>Runs of the workflow\<close>

text \<open>
  What one step of a run does when the collaborators it calls return: the handler's
  effect on the state, written as the source writes it.
\<close>

lemma or_default_simps [simp]: "or_default d None = d" "or_default d (Some v) = v"
  by (simp_all add: or_default_def)

lemma exec_graph_next:
  assumes "handler env n (s, w) = (Inr (), (s', w'))" and "declared_keys s' = s''"
    and "next_node n s'' = Inr (Some n')"
  shows "exec_graph (Suc k) env n s w = exec_graph k env n' s'' w'"
  using assms by auto

lemma exec_graph_router_raises:
  assumes "handler env n (s, w) = (Inr (), (s', w'))" and "declared_keys s' = s''"
    and "next_node n s'' = Inl e"
  shows "exec_graph (Suc k) env n s w = (Crashed e s'', w')"
  using assms by auto

lemma exec_graph_end:
  assumes "handler env n (s, w) = (Inr (), (s', w'))" and "declared_keys s' = s''"
    and "next_node n s'' = Inr None"
  shows "exec_graph (Suc k) env n s w = (Finished s'', w')"
  using assms by auto

lemma node_intent_run:
  assumes "question s = Some q" and "llm_parse env q w = (Inr h, w1)"
    and "llm_parse env q w1 = (Inr h', w2)"
  shows "node_intent env (s, w) =
           (Inr (), (s\<lparr>trace := Some (or_default [] (trace s) @ [''intent'']), hints := Some h,
                        need_stats := Some (truthy (pyget h' ''need_stats'')),
                        retries := Some 0, max_retries := Some 1\<rparr>, w2))"
  using assms by (simp add: node_intent_def get_hints_def rag_need_stats_def prog_defs)

lemma node_rag_run:
  assumes "question s = Some q" and "search env q w = (Inr chunks, w1)"
    and "build_context env chunks w1 = (Inr c, w2)"
  shows "node_rag env (s, w) =
           (Inr (), (s\<lparr>trace := Some (or_default [] (trace s) @ [''rag'']),
                        context_text := Some c\<rparr>, w2))"
  using assms by (simp add: node_rag_def prog_defs)

lemma node_normalize_time_null:
  assumes "hints s = Some h" and "dict_get h ''time_range'' = Some PNone"
    and "now_local env w = (now, w1)"
  shows "node_normalize_time env (s, w) =
           (Inr (), (s\<lparr>time_window := Some window_none,
                        trace := Some (or_default [] (trace s) @ [''normalize_time''])\<rparr>, w1))"
proof -
  have "normalize_body env now (PDict []) = Inr window_none"
    by (rule normalize_body_unrecognized) (simp_all add: dict_get_def)
  with assms show ?thesis
    by (simp add: node_normalize_time_def normalize_time_def prog_defs)
qed

lemma node_generate_sparql_initial:
  assumes "or_default [] (sparql s) = []" and "question s = Some q" and "hints s = Some h"
    and "h \<noteq> []" and "dict_get h ''question_type'' \<noteq> Some (PStr ''topology'')"
    and "generate_timeseries_query env (dict_set ''question'' (PStr q) h) = Inr new"
  shows "node_generate_sparql env (s, w) =
           (Inr (), (s\<lparr>trace := Some (or_default [] (trace s) @ [''generate_sparql'']),
                        hints := Some (dict_set ''question'' (PStr q) h),
                        sparql_history := Some (or_default [] (sparql_history s) @ [(''initial'', new)]),
                        sparql := Some new\<rparr>, w))"
  using assms
  by (cases "sparql_history s")
     (simp_all add: node_generate_sparql_def generate_def prog_defs dict_get_dict_set)

lemma node_generate_sparql_present:
  assumes "sparql s = Some q" and "q \<noteq> []"
  shows "node_generate_sparql env (s, w) =
           (Inr (), (s\<lparr>trace := Some (or_default [] (trace s) @ [''generate_sparql''])\<rparr>, w))"
  using assms by (simp add: node_generate_sparql_def prog_defs)

lemma node_execute_sparql_run:
  assumes "sparql s = Some q" and "execute env q w = (Inr rs, w1)"
    and "dict_get (or_default [] (hints s)) ''question_type'' \<noteq> Some (PStr ''topology'')"
  shows "node_execute_sparql env (s, w) =
           (Inr (), (s\<lparr>trace := Some (or_default [] (trace s) @ [''execute_sparql'']),
                        rows := Some rs, have_rows := Some (rs \<noteq> [])\<rparr>, w1))"
  using assms by (simp add: node_execute_sparql_def prog_defs)

lemma node_route_zero_rows_level_1:
  assumes "or_default 0 (retries s) = 0"
    and "llm_based_sparql_generation env (or_default [] (question s)) (or_default [] (context_text s))
           (or_default [] (hints s)) w = (Inr new, w1)"
  shows "node_route_zero_rows env (s, w) =
           (Inr (), (s\<lparr>trace := Some (or_default [] (trace s) @ [''route_zero_rows'']),
                        retries := Some 1, sparql := Some new, fallback_strategy := Some ''level_1'',
                        sparql_history := Some (or_default [] (sparql_history s) @ [(''level_1'', new)])\<rparr>,
                     w1))"
  using assms
  by (cases "sparql_history s")
     (simp_all add: node_route_zero_rows_def llm_fallback_def prog_defs)

lemma node_route_zero_rows_level_2:
  assumes "or_default 0 (retries s) = 1"
    and "search env (or_default [] (question s)) w = (Inr chunks, w1)"
    and "build_context env chunks w1 = (Inr c, w2)"
    and "advanced_text_to_sparql env (or_default [] (question s)) c (or_default [] (hints s)) w2
           = (Inr new, w3)"
  shows "node_route_zero_rows env (s, w) =
           (Inr (), (s\<lparr>trace := Some (or_default [] (trace s) @ [''route_zero_rows'']),
                        retries := Some 2, context_text := Some c, sparql := Some new,
                        fallback_strategy := Some ''level_2'',
                        sparql_history := Some (or_default [] (sparql_history s) @ [(''level_2'', new)])\<rparr>,
                     w3))"
  using assms
  by (cases "sparql_history s")
     (simp_all add: node_route_zero_rows_def rag_enhanced_def prog_defs)

lemma node_answer_run:
  assumes "question s = Some q"
    and "compose env q (or_default [] (rows s)) (or_default [] (analysis s)) (or_default [] (hints s))
           (or_default [] (time_window s)) (or_default [] (topology_all_rooms s)) w = (Inr a, w1)"
  shows "node_answer env (s, w) =
           (Inr (), (s\<lparr>trace := Some (or_default [] (trace s) @ [''answer'']), answer := Some a\<rparr>, w1))"
  using assms by (simp add: node_answer_def prog_defs)

lemma demo_execute:
  "execute demo_env demo_query () =
     (Inr [[(''s'', ''urn:demo-building#Room_101''), (''__elapsed_ms'', ''0'')]], ())"
  using demo_syntax_ok [of "get_graph demo_env"]
  by (simp add: execute_def)
     (simp add: prog_defs demo_env_def vars_of_def elapsed_ms_def norm_row_def dict_get_def
        int_of_float_def str_int_def str_nat.simps)

text \<open>
  Claim C1. Every step handler catches what its collaborators raise
  (\<open>handler_never_raises\<close>), but the router after execute-query is not a handler
  and is not guarded. In the deployment without an API key, the request
  \<^verbatim>\<open>{"question": "how warm is it"}\<close> runs intent, rag, normalize_time, generate_sparql
  and execute_sparql; the query matches a row, \<^verbatim>\<open>route_after_execute\<close> reads the
  \<^verbatim>\<open>time_range\<close> None of the neutral hints and \<^verbatim>\<open>agent.invoke\<close> ends with
  \<^verbatim>\<open>AttributeError\<close>, before any answer is written.
\<close>

theorem invoke_crashes_when_rows_found:
  "\<exists>s. invoke demo_env (request ''how warm is it'') () = (Crashed (AttributeError PNone ''get'') s, ())
       \<and> trace s = Some [''intent'', ''rag'', ''normalize_time'', ''generate_sparql'', ''execute_sparql'']
       \<and> rows s = Some [[(''s'', ''urn:demo-building#Room_101''), (''__elapsed_ms'', ''0'')]]
       \<and> answer s = None"
proof -
  let ?q = "''how warm is it''"
  let ?h = "neutral demo_env ?q ''no-llm''"
  let ?h' = "dict_set ''question'' (PStr ?q) ?h"
  let ?s0 = "request ?q"
  let ?s1 = "?s0\<lparr>trace := Some [''intent''], hints := Some ?h, need_stats := Some False,
                  retries := Some 0, max_retries := Some 1\<rparr>"
  let ?s2 = "?s1\<lparr>trace := Some [''intent'', ''rag''], context_text := Some []\<rparr>"
  let ?s3 = "?s2\<lparr>time_window := Some window_none,
                  trace := Some [''intent'', ''rag'', ''normalize_time'']\<rparr>"
  let ?s4 = "?s3\<lparr>trace := Some [''intent'', ''rag'', ''normalize_time'', ''generate_sparql''],
                  hints := Some ?h', sparql := Some demo_query\<rparr>"
  let ?s5 = "?s4\<lparr>trace := Some [''intent'', ''rag'', ''normalize_time'', ''generate_sparql'',
                                  ''execute_sparql''],
                  rows := Some [[(''s'', ''urn:demo-building#Room_101''), (''__elapsed_ms'', ''0'')]],
                  have_rows := Some True\<rparr>"
  have q: "question ?s0 = Some ?q" "trace ?s0 = None" "sparql ?s0 = None" "sparql_history ?s0 = None"
    "fallback_strategy ?s0 = None"
    by (simp_all add: request_def)
  have ns: "truthy (pyget ?h ''need_stats'') = False" "dict_get ?h ''time_range'' = Some PNone"
    "?h \<noteq> []" "dict_get ?h ''question_type'' \<noteq> Some (PStr ''topology'')"
    "dict_get ?h' ''question_type'' \<noteq> Some (PStr ''topology'')"
    "dict_get ?h' ''time_range'' = Some PNone"
    by (simp_all add: neutral_def pyget_def dict_get_def)
  have 0: "declared_keys ?s0 = ?s0" by (simp add: declared_keys_def request_def)
  have 1: "handler demo_env Intent (?s0, ()) = (Inr (), (?s1, ()))"
    using node_intent_run [of ?s0 ?q demo_env "()" ?h "()" ?h "()"] q ns
    by (simp add: demo_llm_parse)
  have d1: "declared_keys ?s1 = ?s1" using q by (simp add: declared_keys_def)
  have 2: "handler demo_env Rag (?s1, ()) = (Inr (), (?s2, ()))"
    using node_rag_run [of ?s1 ?q demo_env "()" "PList []" "()" "[]" "()"] q
    by (simp add: demo_env_def ret_def)
  have d2: "declared_keys ?s2 = ?s2" using q by (simp add: declared_keys_def)
  have 3: "handler demo_env Normalize_time (?s2, ()) = (Inr (), (?s3, ()))"
    using node_normalize_time_null [of ?s2 ?h demo_env "()" "()" "()"] ns
    by (simp add: demo_env_def)
  have d3: "declared_keys ?s3 = ?s3" using q by (simp add: declared_keys_def)
  have 4: "handler demo_env Generate_sparql (?s3, ()) =
      (Inr (), (?s4\<lparr>sparql_history := Some [(''initial'', demo_query)]\<rparr>, ()))"
    using node_generate_sparql_initial [of ?s3 ?q ?h demo_env demo_query "()"] q ns
    by (simp add: demo_env_def)
  have d4: "declared_keys (?s4\<lparr>sparql_history := Some [(''initial'', demo_query)]\<rparr>) = ?s4"
    using q by (simp add: declared_keys_def)
  have 5: "handler demo_env Execute_sparql (?s4, ()) = (Inr (), (?s5, ()))"
    using node_execute_sparql_run [of ?s4 demo_query demo_env "()" _ "()", OF _ demo_execute] ns
    by simp
  have d5: "declared_keys ?s5 = ?s5" using q by (simp add: declared_keys_def)
  have 6: "next_node Execute_sparql ?s5 = Inl (AttributeError PNone ''get'')"
    using ns by (simp add: route_after_execute_def attr_get_def ebind_def)
  have "invoke demo_env ?s0 () = exec_graph 24 demo_env Rag ?s1 ()"
    unfolding invoke_def recursion_limit_def 0
    using exec_graph_next [of demo_env Intent ?s0 "()" ?s1 "()" ?s1 Rag 24, OF 1 d1]
    by (simp add: USE_RAG_def)
  also have "\<dots> = exec_graph 23 demo_env Normalize_time ?s2 ()"
    using exec_graph_next [of demo_env Rag ?s1 "()" ?s2 "()" ?s2 Normalize_time 23, OF 2 d2] by simp
  also have "\<dots> = exec_graph 22 demo_env Generate_sparql ?s3 ()"
    using exec_graph_next [of demo_env Normalize_time ?s2 "()" ?s3 "()" ?s3 Generate_sparql 22, OF 3 d3]
    by simp
  also have "\<dots> = exec_graph 21 demo_env Execute_sparql ?s4 ()"
    using exec_graph_next [of demo_env Generate_sparql ?s3 "()" _ "()" ?s4 Execute_sparql 21, OF 4 d4]
    by simp
  also have "\<dots> = (Crashed (AttributeError PNone ''get'') ?s5, ())"
    using exec_graph_router_raises [of demo_env Execute_sparql ?s4 "()" ?s5 "()" ?s5 _ 20, OF 5 d5 6]
    by simp
  finally have "invoke demo_env ?s0 () = (Crashed (AttributeError PNone ''get'') ?s5, ())" .
  moreover have "answer ?s5 = None" by (simp add: request_def)
  ultimately show ?thesis by simp
qed

section \<open>A run through the escalation loop\<close>

lemma sparse_llm_parse: "llm_parse sparse_env q w = (Inr (neutral sparse_env q ''no-llm''), w)"
  by (simp add: llm_parse_def prog_defs sparse_env_def demo_env_def)

lemma sparse_llm_fallback:
  "llm_based_sparql_generation sparse_env q c h w = (Inr fallback_query, w)"
  by (simp add: llm_based_sparql_generation_def prog_defs sparse_env_def demo_env_def)

lemma sparse_syntax_ok:
  "basic_syntax_check sparse_env demo_query" "basic_syntax_check sparse_env fallback_query"
proof -
  have "brackets_ok [] demo_query" "brackets_ok [] fallback_query"
    by (simp_all add: demo_query_def fallback_query_def is_closing_def)
  moreover have "\<not> uses_prefix sparse_env demo_query" "\<not> uses_prefix sparse_env fallback_query"
    by (simp_all add: uses_prefix_def sparse_env_def demo_env_def demo_query_def fallback_query_def
        is_space_def)
  ultimately show "basic_syntax_check sparse_env demo_query"
    "basic_syntax_check sparse_env fallback_query"
    by (simp_all add: basic_syntax_check_def demo_query_def fallback_query_def)
qed

lemma sparse_execute_empty: "execute sparse_env demo_query () = (Inr [], ())"
  using sparse_syntax_ok(1)
  by (simp add: execute_def) (simp add: prog_defs sparse_env_def demo_env_def vars_of_def)

lemma sparse_execute_rows:
  "execute sparse_env fallback_query () =
     (Inr [[(''s'', ''urn:demo-building#Room_101''), (''__elapsed_ms'', ''0'')]], ())"
  using sparse_syntax_ok(2)
  by (simp add: execute_def)
     (simp add: prog_defs sparse_env_def demo_env_def vars_of_def elapsed_ms_def norm_row_def
        dict_get_def int_of_float_def str_int_def str_nat.simps demo_query_def fallback_query_def)

text \<open>
  Claim C2. In a deployment without an API key the template query of the request
  \<^verbatim>\<open>{"question": "how warm is room 9999"}\<close> matches nothing; the first escalation
  (\<^verbatim>\<open>level_1\<close>) stores the fallback query, build-query keeps it, and the second
  execution matches a row. \<^verbatim>\<open>route_after_execute\<close> then raises \<^verbatim>\<open>AttributeError\<close> on
  the \<^verbatim>\<open>time_range\<close> None of the neutral hints: the run ends after two executions
  without reaching the answer step.
\<close>

theorem invoke_crashes_after_escalation:
  "\<exists>s. invoke sparse_env (request ''how warm is room 9999'') () =
           (Crashed (AttributeError PNone ''get'') s, ())
       \<and> trace s = Some [''intent'', ''rag'', ''normalize_time'', ''generate_sparql'', ''execute_sparql'',
                         ''route_zero_rows'', ''generate_sparql'', ''execute_sparql'']
       \<and> retries s = Some 1 \<and> sparql s = Some fallback_query \<and> answer s = None"
proof -
  let ?q = "''how warm is room 9999''"
  let ?h = "neutral sparse_env ?q ''no-llm''"
  let ?h' = "dict_set ''question'' (PStr ?q) ?h"
  let ?rows = "[[(''s'', ''urn:demo-building#Room_101''), (''__elapsed_ms'', ''0'')]]"
  let ?s0 = "request ?q"
  let ?s1 = "?s0\<lparr>trace := Some [''intent''], hints := Some ?h, need_stats := Some False,
                  retries := Some 0, max_retries := Some 1\<rparr>"
  let ?s2 = "?s1\<lparr>trace := Some [''intent'', ''rag''], context_text := Some []\<rparr>"
  let ?s3 = "?s2\<lparr>time_window := Some window_none,
                  trace := Some [''intent'', ''rag'', ''normalize_time'']\<rparr>"
  let ?s4 = "?s3\<lparr>trace := Some [''intent'', ''rag'', ''normalize_time'', ''generate_sparql''],
                  hints := Some ?h', sparql := Some demo_query\<rparr>"
  let ?s5 = "?s4\<lparr>trace := Some [''intent'', ''rag'', ''normalize_time'', ''generate_sparql'',
                                  ''execute_sparql''],
                  rows := Some [], have_rows := Some False\<rparr>"
  let ?s6 = "?s5\<lparr>trace := Some [''intent'', ''rag'', ''normalize_time'', ''generate_sparql'',
                                  ''execute_sparql'', ''route_zero_rows''],
                  retries := Some 1, sparql := Some fallback_query\<rparr>"
  let ?s7 = "?s6\<lparr>trace := Some [''intent'', ''rag'', ''normalize_time'', ''generate_sparql'',
                                  ''execute_sparql'', ''route_zero_rows'', ''generate_sparql'']\<rparr>"
  let ?s8 = "?s7\<lparr>trace := Some [''intent'', ''rag'', ''normalize_time'', ''generate_sparql'',
                                  ''execute_sparql'', ''route_zero_rows'', ''generate_sparql'',
                                  ''execute_sparql''],
                  rows := Some ?rows, have_rows := Some True\<rparr>"
  have q: "question ?s0 = Some ?q" "trace ?s0 = None" "sparql ?s0 = None" "sparql_history ?s0 = None"
    "fallback_strategy ?s0 = None"
    by (simp_all add: request_def)
  have ns: "truthy (pyget ?h ''need_stats'') = False" "dict_get ?h ''time_range'' = Some PNone"
    "?h \<noteq> []" "dict_get ?h ''question_type'' \<noteq> Some (PStr ''topology'')"
    "dict_get ?h' ''question_type'' \<noteq> Some (PStr ''topology'')"
    "dict_get ?h' ''time_range'' = Some PNone"
    by (simp_all add: neutral_def pyget_def dict_get_def)
  have ne: "fallback_query \<noteq> []" by (simp add: fallback_query_def)
  have 0: "declared_keys ?s0 = ?s0" by (simp add: declared_keys_def request_def)
  have 1: "handler sparse_env Intent (?s0, ()) = (Inr (), (?s1, ()))"
    using node_intent_run [of ?s0 ?q sparse_env "()" ?h "()" ?h "()"] q ns
    by (simp add: sparse_llm_parse)
  have d1: "declared_keys ?s1 = ?s1" using q by (simp add: declared_keys_def)
  have 2: "handler sparse_env Rag (?s1, ()) = (Inr (), (?s2, ()))"
    using node_rag_run [of ?s1 ?q sparse_env "()" "PList []" "()" "[]" "()"] q
    by (simp add: sparse_env_def demo_env_def ret_def)
  have d2: "declared_keys ?s2 = ?s2" using q by (simp add: declared_keys_def)
  have 3: "handler sparse_env Normalize_time (?s2, ()) = (Inr (), (?s3, ()))"
    using node_normalize_time_null [of ?s2 ?h sparse_env "()" "()" "()"] ns
    by (simp add: sparse_env_def demo_env_def)
  have d3: "declared_keys ?s3 = ?s3" using q by (simp add: declared_keys_def)
  have 4: "handler sparse_env Generate_sparql (?s3, ()) =
      (Inr (), (?s4\<lparr>sparql_history := Some [(''initial'', demo_query)]\<rparr>, ()))"
    using node_generate_sparql_initial [of ?s3 ?q ?h sparse_env demo_query "()"] q ns
    by (simp add: sparse_env_def demo_env_def)
  have d4: "declared_keys (?s4\<lparr>sparql_history := Some [(''initial'', demo_query)]\<rparr>) = ?s4"
    using q by (simp add: declared_keys_def)
  have 5: "handler sparse_env Execute_sparql (?s4, ()) = (Inr (), (?s5, ()))"
    using node_execute_sparql_run [of ?s4 demo_query sparse_env "()" _ "()", OF _ sparse_execute_empty] ns
    by simp
  have d5: "declared_keys ?s5 = ?s5" using q by (simp add: declared_keys_def)
  have 6: "handler sparse_env Route_zero_rows (?s5, ()) =
      (Inr (), (?s6\<lparr>fallback_strategy := Some ''level_1'',
                       sparql_history := Some [(''level_1'', fallback_query)]\<rparr>, ()))"
    using node_route_zero_rows_level_1 [of ?s5 sparse_env "()" fallback_query "()"] q
    by (simp add: sparse_llm_fallback)
  have d6: "declared_keys (?s6\<lparr>fallback_strategy := Some ''level_1'',
                       sparql_history := Some [(''level_1'', fallback_query)]\<rparr>) = ?s6"
    using q by (simp add: declared_keys_def)
  have 7: "handler sparse_env Generate_sparql (?s6, ()) = (Inr (), (?s7, ()))"
    using node_generate_sparql_present [of ?s6 fallback_query sparse_env "()"] ne by simp
  have d7: "declared_keys ?s7 = ?s7" using q by (simp add: declared_keys_def)
  have 8: "handler sparse_env Execute_sparql (?s7, ()) = (Inr (), (?s8, ()))"
    using node_execute_sparql_run [of ?s7 fallback_query sparse_env "()" _ "()", OF _ sparse_execute_rows] ns
    by simp
  have d8: "declared_keys ?s8 = ?s8" using q by (simp add: declared_keys_def)
  have r5: "next_node Execute_sparql ?s5 = Inr (Some Route_zero_rows)"
    by (simp add: route_after_execute_def ebind_def conditional_def after_execute_edges_def)
  have r6: "next_node Route_zero_rows ?s6 = Inr (Some Generate_sparql)"
    by (simp add: route_retry_or_end_def conditional_def after_zero_rows_edges_def)
  have r8: "next_node Execute_sparql ?s8 = Inl (AttributeError PNone ''get'')"
    using ns by (simp add: route_after_execute_def attr_get_def ebind_def)
  have "invoke sparse_env ?s0 () = exec_graph 24 sparse_env Rag ?s1 ()"
    unfolding invoke_def recursion_limit_def 0
    using exec_graph_next [of sparse_env Intent ?s0 "()" ?s1 "()" ?s1 Rag 24, OF 1 d1]
    by (simp add: USE_RAG_def)
  also have "\<dots> = exec_graph 23 sparse_env Normalize_time ?s2 ()"
    using exec_graph_next [of sparse_env Rag ?s1 "()" ?s2 "()" ?s2 Normalize_time 23, OF 2 d2] by simp
  also have "\<dots> = exec_graph 22 sparse_env Generate_sparql ?s3 ()"
    using exec_graph_next [of sparse_env Normalize_time ?s2 "()" ?s3 "()" ?s3 Generate_sparql 22, OF 3 d3]
    by simp
  also have "\<dots> = exec_graph 21 sparse_env Execute_sparql ?s4 ()"
    using exec_graph_next [of sparse_env Generate_sparql ?s3 "()" _ "()" ?s4 Execute_sparql 21, OF 4 d4]
    by simp
  also have "\<dots> = exec_graph 20 sparse_env Route_zero_rows ?s5 ()"
    using exec_graph_next [of sparse_env Execute_sparql ?s4 "()" ?s5 "()" ?s5 Route_zero_rows 20, OF 5 d5 r5]
    by simp
  also have "\<dots> = exec_graph 19 sparse_env Generate_sparql ?s6 ()"
    using exec_graph_next [of sparse_env Route_zero_rows ?s5 "()" _ "()" ?s6 Generate_sparql 19, OF 6 d6 r6]
    by simp
  also have "\<dots> = exec_graph 18 sparse_env Execute_sparql ?s7 ()"
    using exec_graph_next [of sparse_env Generate_sparql ?s6 "()" ?s7 "()" ?s7 Execute_sparql 18, OF 7 d7]
    by simp
  also have "\<dots> = (Crashed (AttributeError PNone ''get'') ?s8, ())"
    using exec_graph_router_raises [of sparse_env Execute_sparql ?s7 "()" ?s8 "()" ?s8 _ 17, OF 8 d8 r8]
    by simp
  finally have "invoke sparse_env ?s0 () = (Crashed (AttributeError PNone ''get'') ?s8, ())" .
  moreover have "answer ?s8 = None" by (simp add: request_def)
  ultimately show ?thesis by simp
qed

section \<open>The escalation step\<close>











end
